theory Spec2Isabelle
  imports Complex_Main "HOL-Library.Sublist"
begin

section \<open>JavaScript strings and numbers\<close>

text \<open>
  Strings are lists of 8-bit characters. \<open>toLowerCase\<close> maps the letters \<open>A\<close> to \<open>Z\<close>
  to \<open>a\<close> to \<open>z\<close> and leaves every other character alone; \<open>trim\<close> strips tab, line
  feed, vertical tab, form feed, carriage return and space at both ends. On a string of
  ASCII characters these are \<open>String.prototype.toLowerCase\<close> and
  \<open>String.prototype.trim\<close>; the case mappings and the white space of ECMAScript beyond
  ASCII (the no-break space, the other Unicode spaces, accented capitals) are not
  modelled, and a theorem that reads a match or a decision off these functions assumes
  its strings to be ASCII.
\<close>

definition lower_char :: "char \<Rightarrow> char" where
  "lower_char c =
     (case map_of (zip ''ABCDEFGHIJKLMNOPQRSTUVWXYZ'' ''abcdefghijklmnopqrstuvwxyz'') c of
        Some l \<Rightarrow> l
      | None \<Rightarrow> c)"

definition toLowerCase :: "string \<Rightarrow> string" where
  "toLowerCase s = map lower_char s"

definition is_space :: "char \<Rightarrow> bool" where
  "is_space c = (c \<in> {CHR 0x09, CHR 0x0A, CHR 0x0B, CHR 0x0C, CHR 0x0D, CHR '' ''})"

definition trim :: "string \<Rightarrow> string" where
  "trim s = rev (dropWhile is_space (rev (dropWhile is_space s)))"

text \<open>
  \<open>hay.includes(needle)\<close>: the needle occurs in the haystack as a contiguous run of
  characters, at some position; the empty needle occurs in every string.
\<close>

fun str_includes :: "string \<Rightarrow> string \<Rightarrow> bool" where
  "str_includes [] needle = (needle = [])"
| "str_includes (c # hay) needle = (prefix needle (c # hay) \<or> str_includes hay needle)"

text \<open>
  Numbers: a JavaScript \<open>number\<close> is an IEEE double; the model computes with the real
  number it denotes. Comparisons of doubles are comparisons of these reals. Sums are
  added exactly, where the program rounds a sum that is not a double; a theorem that
  reads a decision off a sum assumes the sums to be exact. Infinities and NaN are not
  modelled. Time stamps are milliseconds since the epoch, integers.

  \<open>numToString\<close> is the conversion a template literal applies to a number. For an
  integer of magnitude at most \<open>2^53 - 1\<close> ECMAScript prints the decimal digits, with a
  leading minus sign below zero; the rendering of every other number, and \<open>toFixed(2)\<close>,
  belong to the runtime and are parameters of the model.
\<close>

definition digit_char :: "nat \<Rightarrow> char" where
  "digit_char d = ''0123456789'' ! d"

fun digits_of :: "nat \<Rightarrow> string" where
  "digits_of n = (if n < 10 then [digit_char n] else digits_of (n div 10) @ [digit_char (n mod 10)])"

declare digits_of.simps [simp del]

record number_format =
  otherToString :: "real \<Rightarrow> string"
  toFixed2 :: "real \<Rightarrow> string"

definition numToString :: "number_format \<Rightarrow> real \<Rightarrow> string" where
  "numToString fmt x =
     (if x = of_int \<lfloor>x\<rfloor> \<and> \<bar>x\<bar> \<le> 9007199254740991
      then (if x < 0 then ''-'' else []) @ digits_of (nat \<lfloor>\<bar>x\<bar>\<rfloor>)
      else otherToString fmt x)"


section \<open>Data model (types/index.ts)\<close>

record PaymentRequest =
  amount :: real
  merchant :: string
  description :: string
  req_currency :: "string option"
  metadata :: "(string \<times> string) list option"

datatype action = auto_approve | require_approval | deny

record PolicyResult =
  action :: action
  reason :: string

record PolicyConfig =
  autoApproveUnder :: real
  requireApprovalAbove :: real
  blockAbove :: real
  dailyLimit :: real
  monthlyLimit :: "real option"
  blockedKeywords :: "string list"
  allowedMerchants :: "string list option"
  blockedMerchants :: "string list option"
  currency :: string

datatype approver = by_auto | by_human

record TransactionLog =
  log_id :: string
  timestamp :: int
  payment :: PaymentRequest
  policyResult :: PolicyResult
  approved :: bool
  approvedBy :: approver

text \<open>
  The clock is what the \<open>Date\<close> runtime hands to the code: \<open>now\<close> is \<open>Date.now()\<close>,
  \<open>startOfDay\<close> is \<open>new Date()\<close> after \<open>setHours(0, 0, 0, 0)\<close> (local midnight of the
  current day), \<open>startOfMonth\<close> the same after \<open>setDate(1)\<close> as well (local midnight of
  the first of the current month), all in milliseconds since the epoch.
\<close>

record clock =
  now :: int
  startOfDay :: int
  startOfMonth :: int

section \<open>PolicyEngine (core/policy.ts)\<close>

text \<open>JavaScript truthiness of an optional string, an optional number, an optional list's length.\<close>

definition truthy_string :: "string option \<Rightarrow> bool" where
  "truthy_string r = (case r of None \<Rightarrow> False | Some s \<Rightarrow> s \<noteq> [])"

definition truthy_number :: "real option \<Rightarrow> bool" where
  "truthy_number r = (case r of None \<Rightarrow> False | Some x \<Rightarrow> x \<noteq> 0)"

definition has_length :: "'a list option \<Rightarrow> bool" where
  "has_length r = (case r of None \<Rightarrow> False | Some xs \<Rightarrow> xs \<noteq> [])"

text \<open>\<open>getTodaySpending\<close> and \<open>getMonthSpending\<close>: \<open>filter\<close>, then \<open>reduce\<close> from 0.\<close>

definition getTodaySpending :: "clock \<Rightarrow> TransactionLog list \<Rightarrow> real" where
  "getTodaySpending clk logs =
     foldl (\<lambda>sum l. sum + amount (payment l)) 0
       (filter (\<lambda>l. approved l \<and> timestamp l \<ge> startOfDay clk) logs)"

definition getMonthSpending :: "clock \<Rightarrow> TransactionLog list \<Rightarrow> real" where
  "getMonthSpending clk logs =
     foldl (\<lambda>sum l. sum + amount (payment l)) 0
       (filter (\<lambda>l. approved l \<and> timestamp l \<ge> startOfMonth clk) logs)"

text \<open>
  The three list searches of \<open>evaluate\<close>. \<open>find\<close> returns the first entry that
  matches, or nothing; \<open>some\<close> says whether an entry matches.
\<close>

definition blockedMerchantFound :: "PolicyConfig \<Rightarrow> PaymentRequest \<Rightarrow> string option" where
  "blockedMerchantFound policy request =
     (if has_length (blockedMerchants policy)
      then find (\<lambda>m. str_includes (toLowerCase (merchant request)) (toLowerCase m))
             (the (blockedMerchants policy))
      else None)"

definition merchantAllowed :: "PolicyConfig \<Rightarrow> PaymentRequest \<Rightarrow> bool" where
  "merchantAllowed policy request =
     list_ex (\<lambda>m. str_includes (toLowerCase (merchant request)) (toLowerCase m))
       (the (allowedMerchants policy))"

definition blockedKeywordFound :: "PolicyConfig \<Rightarrow> PaymentRequest \<Rightarrow> string option" where
  "blockedKeywordFound policy request =
     (if blockedKeywords policy \<noteq> []
      then find (\<lambda>kw. str_includes (toLowerCase (description request)) (toLowerCase kw) \<or>
                      str_includes (toLowerCase (merchant request)) (toLowerCase kw))
             (blockedKeywords policy)
      else None)"

text \<open>
  \<open>evaluate\<close>, given the transaction log that \<open>getTransactionLogs\<close> reads. Each \<open>if\<close> of
  the source returns; the chain below keeps their order. \<open>the\<close> is applied to an option
  only under the guard that makes it \<open>Some\<close>.
\<close>

definition evaluate ::
  "number_format \<Rightarrow> PolicyConfig \<Rightarrow> clock \<Rightarrow> TransactionLog list \<Rightarrow> PaymentRequest \<Rightarrow> PolicyResult"
where
  "evaluate fmt policy clk logs request =
     (let amt = amount request;
          blocked = blockedMerchantFound policy request;
          hit = blockedKeywordFound policy request;
          todaySpent = getTodaySpending clk logs;
          monthSpent = getMonthSpending clk logs
      in
      if amt > blockAbove policy then
        \<lparr>action = deny,
         reason = ''Amount $'' @ numToString fmt amt @ '' exceeds maximum allowed ($'' @
                  numToString fmt (blockAbove policy) @ '')''\<rparr>
      else if truthy_string blocked then
        \<lparr>action = deny,
         reason = ''Merchant '' @ [CHR 0x22] @ merchant request @ [CHR 0x22] @
                  '' is blocked by policy''\<rparr>
      else if has_length (allowedMerchants policy) \<and> \<not> merchantAllowed policy request then
        \<lparr>action = deny,
         reason = ''Merchant '' @ [CHR 0x22] @ merchant request @ [CHR 0x22] @
                  '' is not in the allowed list''\<rparr>
      else if truthy_string hit then
        \<lparr>action = deny,
         reason = ''Blocked keyword '' @ [CHR 0x22] @ the hit @ [CHR 0x22] @
                  '' found in request''\<rparr>
      else if todaySpent + amt > dailyLimit policy then
        \<lparr>action = deny,
         reason = ''Daily limit exceeded. Spent today: $'' @ toFixed2 fmt todaySpent @
                  '', limit: $'' @ numToString fmt (dailyLimit policy)\<rparr>
      else if truthy_number (monthlyLimit policy) \<and>
              monthSpent + amt > the (monthlyLimit policy) then
        \<lparr>action = deny,
         reason = ''Monthly limit exceeded. Spent this month: $'' @ toFixed2 fmt monthSpent @
                  '', limit: $'' @ numToString fmt (the (monthlyLimit policy))\<rparr>
      else if amt \<le> autoApproveUnder policy then
        \<lparr>action = auto_approve,
         reason = ''Amount $'' @ numToString fmt amt @ '' is under auto-approve threshold ($'' @
                  numToString fmt (autoApproveUnder policy) @ '')''\<rparr>
      else
        \<lparr>action = require_approval,
         reason = ''Amount $'' @ numToString fmt amt @
                  '' requires human approval (threshold: $'' @
                  numToString fmt (requireApprovalAbove policy) @ '')''\<rparr>)"

text \<open>\<open>DEFAULT_POLICY\<close>, and the constructor's merge of a partial policy over it.\<close>

definition DEFAULT_POLICY :: PolicyConfig where
  "DEFAULT_POLICY =
     \<lparr>autoApproveUnder = 25, requireApprovalAbove = 25, blockAbove = 1000, dailyLimit = 200,
      monthlyLimit = Some 2000, blockedKeywords = [], allowedMerchants = Some [],
      blockedMerchants = Some [], currency = ''USD''\<rparr>"

section \<open>Approval channels (approval/terminal.ts, whatsapp.ts, index.ts)\<close>

text \<open>
  The symbols the messages start with, as their UTF-8 bytes: the alarm clock U+23F0, the
  check mark U+2705, the cross mark U+274C, the bell U+1F514 and the dash U+2014.
\<close>

definition sym_clock :: string where
  "sym_clock = [CHR 0xE2, CHR 0x8F, CHR 0xB0]"

definition sym_check :: string where
  "sym_check = [CHR 0xE2, CHR 0x9C, CHR 0x85]"

definition sym_cross :: string where
  "sym_cross = [CHR 0xE2, CHR 0x9D, CHR 0x8C]"

definition sym_bell :: string where
  "sym_bell = [CHR 0xF0, CHR 0x9F, CHR 0x94, CHR 0x94]"

definition sym_dash :: string where
  "sym_dash = [CHR 0xE2, CHR 0x80, CHR 0x94]"

subsection \<open>Terminal\<close>

text \<open>
  \<open>terminalApproval\<close> prints the request, then returns a promise with two callbacks
  racing to settle it: the timer's and the one \<open>rl.question\<close> calls with the line the
  human typed. The state below is what the two callbacks share: the promise (\<open>None\<close>
  while pending), whether the timer is still armed, whether the readline interface is
  still open, and the lines printed after the request box.

  \<open>resolve\<close> is the promise's resolving function: it settles a pending promise and does
  nothing to a settled one.
\<close>

record terminal_state =
  promise :: "bool option"
  timer_armed :: bool
  rl_open :: bool
  console :: "string list"

definition resolve :: "bool \<Rightarrow> terminal_state \<Rightarrow> terminal_state" where
  "resolve v s = (case promise s of None \<Rightarrow> s\<lparr>promise := Some v\<rparr> | Some _ \<Rightarrow> s)"

definition on_timeout :: "terminal_state \<Rightarrow> terminal_state" where
  "on_timeout s =
     resolve False
       (s\<lparr>console := console s @ [[CHR 0x0A] @ sym_clock @ '' Approval timed out. Payment denied.''],
          rl_open := False\<rparr>)"

definition on_answer :: "string \<Rightarrow> terminal_state \<Rightarrow> terminal_state" where
  "on_answer answer s =
     (let approved = (toLowerCase (trim answer) = ''yes'') in
      resolve approved
        (s\<lparr>timer_armed := False, rl_open := False,
           console := console s @
             [if approved then sym_check @ '' Payment approved.''
              else sym_cross @ '' Payment denied.'']\<rparr>))"

text \<open>
  The runtime delivers a signal to its callback only while the callback is registered:
  the timer fires once, and not after \<open>clearTimeout\<close>; a line reaches the question's
  callback once, and not after \<open>rl.close()\<close>.
\<close>

datatype signal = Timer_fires | Line_typed string

definition deliver :: "signal \<Rightarrow> terminal_state \<Rightarrow> terminal_state" where
  "deliver sig s =
     (case sig of
        Timer_fires \<Rightarrow> if timer_armed s then on_timeout (s\<lparr>timer_armed := False\<rparr>) else s
      | Line_typed answer \<Rightarrow> if rl_open s then on_answer answer s else s)"

definition terminal_pending :: terminal_state where
  "terminal_pending = \<lparr>promise = None, timer_armed = True, rl_open = True, console = []\<rparr>"

definition terminal_run :: "signal list \<Rightarrow> terminal_state" where
  "terminal_run sigs = foldl (\<lambda>s sig. deliver sig s) terminal_pending sigs"

subsection \<open>WhatsApp\<close>

text \<open>
  \<open>whatsappApproval\<close>, given what \<open>waitForReply\<close> returns (\<open>None\<close> for \<open>null\<close>): the
  decision and the messages sent, in order. \<open>sendMessage\<close> is taken to succeed.
\<close>

definition join_lines :: "string list \<Rightarrow> string" where
  "join_lines ls = (case ls of [] \<Rightarrow> [] | l # rest \<Rightarrow> foldl (\<lambda>acc x. acc @ [CHR 0x0A] @ x) l rest)"

definition whatsapp_prompt :: "number_format \<Rightarrow> PaymentRequest \<Rightarrow> PolicyResult \<Rightarrow> string" where
  "whatsapp_prompt fmt pay policyRes =
     (let cur = (if truthy_string (req_currency pay) then the (req_currency pay)
                      else ''USD'') in
      join_lines
        [sym_bell @ '' *ClawPayer Approval Request*'',
         [],
         ''*Amount:* '' @ cur @ '' '' @ toFixed2 fmt (amount pay),
         ''*Merchant:* '' @ merchant pay,
         ''*Description:* '' @ description pay,
         ''*Reason:* '' @ reason policyRes,
         [],
         ''Reply *yes* to approve or *no* to deny.''])"

definition whatsappApproval ::
  "number_format \<Rightarrow> PaymentRequest \<Rightarrow> PolicyResult \<Rightarrow> string option \<Rightarrow> bool \<times> string list"
where
  "whatsappApproval fmt pay policyRes reply =
     (let text = whatsapp_prompt fmt pay policyRes in
      if \<not> truthy_string reply then
        (False, [text, sym_clock @ '' Approval timed out '' @ sym_dash @ '' payment denied.''])
      else
        let normalized = toLowerCase (trim (the reply));
            approved = (normalized \<in> set [''yes'', ''approve'', ''y'', ''approved'']);
            denied = (normalized \<in> set [''no'', ''deny'', ''n'', ''denied'', ''reject''])
        in
        if approved then (True, [text, sym_check @ '' Payment approved.''])
        else if denied then (False, [text, sym_cross @ '' Payment denied.''])
        else (False, [text, ''Unrecognized reply '' @ [CHR 0x22] @ the reply @ [CHR 0x22] @
                            ''. Payment denied for safety.'']))"

subsection \<open>The router\<close>

text \<open>
  A thrown \<open>Error\<close> is the left summand of the result. The channel handlers wait for a
  human or a remote service; what they answer is a parameter of the model.
\<close>

datatype error = Error string

record ApprovalConfig =
  approval_method :: string
  timeout :: "real option"
  webhookUrl :: "string option"
  slackWebhookUrl :: "string option"
  telegramBotToken :: "string option"
  telegramChatId :: "string option"

record channels =
  terminal_channel :: "PaymentRequest \<Rightarrow> PolicyResult \<Rightarrow> real \<Rightarrow> error + bool"
  webhook_channel :: "PaymentRequest \<Rightarrow> PolicyResult \<Rightarrow> string \<Rightarrow> real \<Rightarrow> error + bool"
  telegram_channel ::
    "PaymentRequest \<Rightarrow> PolicyResult \<Rightarrow> string \<Rightarrow> string \<Rightarrow> real \<Rightarrow> error + bool"

definition timeout_ms :: "ApprovalConfig \<Rightarrow> real" where
  "timeout_ms cfg = (if truthy_number (timeout cfg) then the (timeout cfg) else 300) * 1000"

definition requestApproval ::
  "channels \<Rightarrow> PaymentRequest \<Rightarrow> PolicyResult \<Rightarrow> ApprovalConfig \<Rightarrow> error + bool"
where
  "requestApproval ch pay policyRes cfg =
     (let timeoutMs = timeout_ms cfg in
      if approval_method cfg = ''terminal'' then
        terminal_channel ch pay policyRes timeoutMs
      else if approval_method cfg = ''webhook'' then
        (if \<not> truthy_string (webhookUrl cfg)
         then Inl (Error ''Webhook URL not configured for approval.'')
         else webhook_channel ch pay policyRes (the (webhookUrl cfg)) timeoutMs)
      else if approval_method cfg = ''slack'' then
        (if \<not> truthy_string (slackWebhookUrl cfg)
         then Inl (Error ''Slack webhook URL not configured for approval.'')
         else webhook_channel ch pay policyRes (the (slackWebhookUrl cfg)) timeoutMs)
      else if approval_method cfg = ''telegram'' then
        (if \<not> truthy_string (telegramBotToken cfg) \<or> \<not> truthy_string (telegramChatId cfg)
         then Inl (Error ''Telegram bot token and chat ID are required for Telegram approval.'')
         else telegram_channel ch pay policyRes (the (telegramBotToken cfg))
                (the (telegramChatId cfg)) timeoutMs)
      else if approval_method cfg = ''whatsapp'' then
        Inl (Error (''WhatsApp approval requires OpenClaw's messaging layer. Use the OpenClaw '' @
                    ''plugin or the webhook method with your own WhatsApp bridge.''))
      else if approval_method cfg = ''callback'' then
        Inl (Error ''Callback approval must be handled by the integration layer.'')
      else Inr False)"

section \<open>Vault and ClawPay (core/vault.ts, core/clawpay.ts)\<close>

record BillingAddress =
  line1 :: string
  line2 :: "string option"
  city :: string
  state :: string
  postalCode :: string
  country :: string

record CardDetails =
  cardholderName :: string
  number :: string
  expMonth :: string
  expYear :: string
  cvv :: string
  billingAddress :: "BillingAddress option"

record EncryptedPayload =
  iv :: string
  authTag :: string
  data :: string

text \<open>
  The files and the key store the code reads and writes: the key \<open>getKey\<close> finds, the
  vault file, and the transaction log (\<open>None\<close> when the file is missing or does not
  parse). \<open>calls\<close> is bookkeeping of the model: the collaborators \<open>requestCard\<close> has
  called, in order.
\<close>

datatype call = Evaluate_policy PaymentRequest | Get_card | Ask_callback real | Ask_router

record world =
  vault_key :: "string option"
  vault_file :: "EncryptedPayload option"
  log_file :: "TransactionLog list option"
  calls :: "call list"

text \<open>
  What the code takes from outside: number rendering, the clock, \<open>randomUUID()\<close>, the
  AES-256-GCM decipher of \<open>node:crypto\<close> followed by \<open>JSON.parse\<close> (it throws on a tag
  that does not verify), and the approval channels.
\<close>

record env =
  fmt :: number_format
  clk :: clock
  uuid :: string
  decipher :: "string \<Rightarrow> EncryptedPayload \<Rightarrow> error + CardDetails"
  chans :: channels

definition hasCard :: "world \<Rightarrow> bool" where
  "hasCard w = (vault_file w \<noteq> None)"

definition getCard :: "env \<Rightarrow> world \<Rightarrow> error + CardDetails" where
  "getCard e w =
     (case vault_key w of
        None \<Rightarrow> Inl (Error ''Vault not initialized. Run `clawpayer init` first.'')
      | Some key \<Rightarrow>
          (case vault_file w of
             None \<Rightarrow> Inl (Error ''No card stored. Run `clawpayer add-card` first.'')
           | Some encrypted \<Rightarrow> decipher e key encrypted))"

definition getTransactionLogs :: "world \<Rightarrow> TransactionLog list" where
  "getTransactionLogs w = (case log_file w of None \<Rightarrow> [] | Some logs \<Rightarrow> logs)"

text \<open>
  The constructor of \<open>PolicyEngine\<close> spreads the policy it is given over
  \<open>DEFAULT_POLICY\<close>: a key that is absent takes the default, a key that is present keeps
  its value, \<open>undefined\<close> included. \<open>PolicyInput\<close> is the policy as the configuration
  gives it: the required keys of \<open>PolicyConfig\<close> are present, each optional key is
  absent, present and \<open>undefined\<close>, or present with a value.
\<close>

datatype 'a optional_key = Key_absent | Key_undefined | Key_value 'a

record PolicyInput =
  in_autoApproveUnder :: real
  in_requireApprovalAbove :: real
  in_blockAbove :: real
  in_dailyLimit :: real
  in_monthlyLimit :: "real optional_key"
  in_blockedKeywords :: "string list"
  in_allowedMerchants :: "string list optional_key"
  in_blockedMerchants :: "string list optional_key"
  in_currency :: string

definition spread_key :: "'a option \<Rightarrow> 'a optional_key \<Rightarrow> 'a option" where
  "spread_key dflt k =
     (case k of Key_absent \<Rightarrow> dflt | Key_undefined \<Rightarrow> None | Key_value v \<Rightarrow> Some v)"

definition PolicyEngine :: "PolicyInput \<Rightarrow> PolicyConfig" where
  "PolicyEngine given =
     \<lparr>autoApproveUnder = in_autoApproveUnder given,
      requireApprovalAbove = in_requireApprovalAbove given,
      blockAbove = in_blockAbove given,
      dailyLimit = in_dailyLimit given,
      monthlyLimit = spread_key (monthlyLimit DEFAULT_POLICY) (in_monthlyLimit given),
      blockedKeywords = in_blockedKeywords given,
      allowedMerchants = spread_key (allowedMerchants DEFAULT_POLICY) (in_allowedMerchants given),
      blockedMerchants = spread_key (blockedMerchants DEFAULT_POLICY) (in_blockedMerchants given),
      currency = in_currency given\<rparr>"

record LoggingConfig =
  enabled :: bool
  path :: string

datatype key_storage = keychain_storage | file_storage | env_storage

record ClawPayConfig =
  vault_keyStorage :: key_storage
  policies :: PolicyInput
  approval :: ApprovalConfig
  logging :: LoggingConfig

record ClawPay =
  config :: ClawPayConfig
  onApproval :: "(PaymentRequest \<Rightarrow> PolicyResult \<Rightarrow> real \<Rightarrow> error + bool) option"

datatype outcome = Approved CardDetails | Refused string

definition called :: "call \<Rightarrow> world \<Rightarrow> world" where
  "called c w = w\<lparr>calls := calls w @ [c]\<rparr>"

text \<open>\<open>ClawPay.logTransaction\<close>, with \<open>PolicyEngine.logTransaction\<close> inlined.\<close>

definition logTransaction ::
  "ClawPay \<Rightarrow> env \<Rightarrow> world \<Rightarrow> PaymentRequest \<Rightarrow> PolicyResult \<Rightarrow> bool \<Rightarrow> approver \<Rightarrow> world"
where
  "logTransaction cp e w pay policyRes appr apprBy =
     (if \<not> enabled (logging (config cp)) then w
      else
        let log = \<lparr>log_id = uuid e, timestamp = now (clk e), payment = pay,
                   policyResult = policyRes, approved = appr, approvedBy = apprBy\<rparr>
        in w\<lparr>log_file := Some (getTransactionLogs w @ [log])\<rparr>)"

definition policy_decision :: "ClawPay \<Rightarrow> env \<Rightarrow> world \<Rightarrow> PaymentRequest \<Rightarrow> PolicyResult" where
  "policy_decision cp e w request =
     evaluate (fmt e) (PolicyEngine (policies (config cp))) (clk e) (getTransactionLogs w) request"

definition requestCard ::
  "ClawPay \<Rightarrow> env \<Rightarrow> world \<Rightarrow> PaymentRequest \<Rightarrow> world \<times> (error + outcome)"
where
  "requestCard cp e w request =
     (if \<not> hasCard w then
        (w, Inr (Refused ''No card stored. Run `clawpay add-card` first.''))
      else
        let policyRes = policy_decision cp e w request;
            w1 = called (Evaluate_policy request) w
        in
        if action policyRes = deny then
          (logTransaction cp e w1 request policyRes False by_auto,
           Inr (Refused (reason policyRes)))
        else if action policyRes = auto_approve then
          (let w2 = called Get_card w1 in
           case getCard e w2 of
             Inl err \<Rightarrow> (w2, Inl err)
           | Inr details \<Rightarrow>
               (logTransaction cp e w2 request policyRes True by_auto, Inr (Approved details)))
        else
          let timeoutMs = timeout_ms (approval (config cp));
              w2 = (case onApproval cp of
                      Some cb \<Rightarrow> called (Ask_callback timeoutMs) w1
                    | None \<Rightarrow> called Ask_router w1);
              answer = (case onApproval cp of
                          Some cb \<Rightarrow> cb request policyRes timeoutMs
                        | None \<Rightarrow> requestApproval (chans e) request policyRes
                                    (approval (config cp)))
          in
          case answer of
            Inl err \<Rightarrow> (w2, Inl err)
          | Inr ok \<Rightarrow>
              if \<not> ok then
                (logTransaction cp e w2 request policyRes False by_human,
                 Inr (Refused ''Payment denied by user.''))
              else
                (let w3 = called Get_card w2 in
                 case getCard e w3 of
                   Inl err \<Rightarrow> (w3, Inl err)
                 | Inr details \<Rightarrow>
                     (logTransaction cp e w3 request policyRes True by_human,
                      Inr (Approved details))))"

text \<open>\<open>DEFAULT_CONFIG\<close> of clawpay.ts.\<close>

definition DEFAULT_CONFIG :: ClawPayConfig where
  "DEFAULT_CONFIG =
     \<lparr>vault_keyStorage = keychain_storage,
      policies = \<lparr>in_autoApproveUnder = 25, in_requireApprovalAbove = 25,
                  in_blockAbove = 1000, in_dailyLimit = 200, in_monthlyLimit = Key_value 2000,
                  in_blockedKeywords = [], in_allowedMerchants = Key_absent,
                  in_blockedMerchants = Key_absent, in_currency = ''USD''\<rparr>,
      approval = \<lparr>approval_method = ''terminal'', timeout = Some 300, webhookUrl = None,
                  slackWebhookUrl = None, telegramBotToken = None, telegramChatId = None\<rparr>,
      logging = \<lparr>enabled = True, path = ''~/.clawpay/transactions.json''\<rparr>\<rparr>"

section \<open>The specification's reading of the policy rules\<close>

text \<open>
  The conditions of the eight rules as the specification words them, independent of how
  \<open>evaluate\<close> searches its lists and sums its ledger: an entry matches a text when the
  lower-cased entry is a contiguous part (\<open>sublist\<close>) of the lower-cased text, and the
  spend of a window is the sum of the amounts of the approved entries stamped at or after
  its start.

  Three conditions say where the model computes what the program computes. \<open>ascii\<close>:
  on a string of ASCII characters, \<open>toLowerCase\<close> and \<open>trim\<close> above are the ECMAScript
  functions. \<open>double_values\<close>: every number of the policy, the ledger and the request is
  a finite double, as every number the program holds is. \<open>sums_exact\<close>: the program adds
  IEEE doubles, where a sum that is itself a double is returned as it is and any other
  sum is rounded; the model adds real numbers, so the two agree on a ledger and an amount
  for which every sum formed, from 0 through the entries of the window in ledger order
  and then with the amount, is a double.
\<close>

definition ascii :: "string \<Rightarrow> bool" where
  "ascii s = list_all (\<lambda>c. \<not> digit7 c) s"

definition is_double :: "real \<Rightarrow> bool" where
  "is_double x =
     (\<exists>m e :: int. \<bar>m\<bar> < 2 ^ 53 \<and> - 1074 \<le> e \<and> e \<le> 971 \<and> x = of_int m * 2 powi e)"

fun exact_sums :: "real \<Rightarrow> real list \<Rightarrow> bool" where
  "exact_sums s [] = True"
| "exact_sums s (a # rest) = (is_double (s + a) \<and> exact_sums (s + a) rest)"

definition approved_since :: "int \<Rightarrow> TransactionLog list \<Rightarrow> real list" where
  "approved_since start logs =
     map (\<lambda>l. amount (payment l)) (filter (\<lambda>l. approved l \<and> start \<le> timestamp l) logs)"

definition spec_spend_since :: "int \<Rightarrow> TransactionLog list \<Rightarrow> real" where
  "spec_spend_since start logs = sum_list (approved_since start logs)"

definition sums_exact :: "int \<Rightarrow> TransactionLog list \<Rightarrow> real \<Rightarrow> bool" where
  "sums_exact start logs a =
     (exact_sums 0 (approved_since start logs) \<and> is_double (spec_spend_since start logs + a))"

definition opt_list :: "'a list option \<Rightarrow> 'a list" where
  "opt_list r = (case r of None \<Rightarrow> [] | Some xs \<Rightarrow> xs)"

definition double_values :: "PolicyConfig \<Rightarrow> TransactionLog list \<Rightarrow> PaymentRequest \<Rightarrow> bool" where
  "double_values p logs r =
     (is_double (amount r) \<and> is_double (autoApproveUnder p) \<and>
      is_double (requireApprovalAbove p) \<and> is_double (blockAbove p) \<and>
      is_double (dailyLimit p) \<and>
      (case monthlyLimit p of None \<Rightarrow> True | Some cap \<Rightarrow> is_double cap) \<and>
      list_all (\<lambda>l. is_double (amount (payment l))) logs)"

definition ascii_request :: "PaymentRequest \<Rightarrow> bool" where
  "ascii_request r = (ascii (merchant r) \<and> ascii (description r))"

definition ascii_policy :: "PolicyConfig \<Rightarrow> bool" where
  "ascii_policy p =
     (list_all ascii (opt_list (blockedMerchants p)) \<and>
      list_all ascii (opt_list (allowedMerchants p)) \<and>
      list_all ascii (blockedKeywords p))"

definition ci_substring :: "string \<Rightarrow> string \<Rightarrow> bool" where
  "ci_substring entry txt = sublist (toLowerCase entry) (toLowerCase txt)"

definition spec_over_ceiling :: "PolicyConfig \<Rightarrow> PaymentRequest \<Rightarrow> bool" where
  "spec_over_ceiling p r = (amount r > blockAbove p)"

definition spec_merchant_blocked :: "PolicyConfig \<Rightarrow> PaymentRequest \<Rightarrow> bool" where
  "spec_merchant_blocked p r =
     (\<exists>m \<in> set (opt_list (blockedMerchants p)). ci_substring m (merchant r))"

definition spec_not_allowed :: "PolicyConfig \<Rightarrow> PaymentRequest \<Rightarrow> bool" where
  "spec_not_allowed p r =
     (opt_list (allowedMerchants p) \<noteq> [] \<and>
      (\<forall>m \<in> set (opt_list (allowedMerchants p)). \<not> ci_substring m (merchant r)))"

definition spec_keyword_match :: "PaymentRequest \<Rightarrow> string \<Rightarrow> bool" where
  "spec_keyword_match r kw = (ci_substring kw (description r) \<or> ci_substring kw (merchant r))"

definition spec_keyword_blocked :: "PolicyConfig \<Rightarrow> PaymentRequest \<Rightarrow> bool" where
  "spec_keyword_blocked p r = (\<exists>kw \<in> set (blockedKeywords p). spec_keyword_match r kw)"

definition spec_daily_exceeded ::
  "PolicyConfig \<Rightarrow> clock \<Rightarrow> TransactionLog list \<Rightarrow> PaymentRequest \<Rightarrow> bool"
where
  "spec_daily_exceeded p c logs r =
     (spec_spend_since (startOfDay c) logs + amount r > dailyLimit p)"

text \<open>The monthly rule, for a limit that is configured and is not zero.\<close>

definition spec_monthly_exceeded ::
  "PolicyConfig \<Rightarrow> clock \<Rightarrow> TransactionLog list \<Rightarrow> PaymentRequest \<Rightarrow> bool"
where
  "spec_monthly_exceeded p c logs r =
     (case monthlyLimit p of
        None \<Rightarrow> False
      | Some cap \<Rightarrow> cap \<noteq> 0 \<and> spec_spend_since (startOfMonth c) logs + amount r > cap)"

text \<open>The number of the first rule whose condition holds, and what that rule answers.\<close>

definition spec_rule ::
  "PolicyConfig \<Rightarrow> clock \<Rightarrow> TransactionLog list \<Rightarrow> PaymentRequest \<Rightarrow> nat"
where
  "spec_rule p c logs r =
     (if spec_over_ceiling p r then 1
      else if spec_merchant_blocked p r then 2
      else if spec_not_allowed p r then 3
      else if spec_keyword_blocked p r then 4
      else if spec_daily_exceeded p c logs r then 5
      else if spec_monthly_exceeded p c logs r then 6
      else if amount r \<le> autoApproveUnder p then 7
      else 8)"

definition spec_action :: "nat \<Rightarrow> action" where
  "spec_action k = (if k \<le> 6 then deny else if k = 7 then auto_approve else require_approval)"

definition quoted :: "string \<Rightarrow> string" where
  "quoted s = [CHR 0x22] @ s @ [CHR 0x22]"

definition rule_reason ::
  "number_format \<Rightarrow> PolicyConfig \<Rightarrow> clock \<Rightarrow> TransactionLog list \<Rightarrow> PaymentRequest \<Rightarrow> nat
   \<Rightarrow> string set"
where
  "rule_reason f p c logs r k =
     (if k = 1 then
        {''Amount $'' @ numToString f (amount r) @ '' exceeds maximum allowed ($'' @
         numToString f (blockAbove p) @ '')''}
      else if k = 2 then {''Merchant '' @ quoted (merchant r) @ '' is blocked by policy''}
      else if k = 3 then {''Merchant '' @ quoted (merchant r) @ '' is not in the allowed list''}
      else if k = 4 then
        set (map (\<lambda>kw. ''Blocked keyword '' @ quoted kw @ '' found in request'')
               (filter (spec_keyword_match r) (blockedKeywords p)))
      else if k = 5 then
        {''Daily limit exceeded. Spent today: $'' @
         toFixed2 f (spec_spend_since (startOfDay c) logs) @
         '', limit: $'' @ numToString f (dailyLimit p)}
      else if k = 6 then
        (case monthlyLimit p of
           None \<Rightarrow> {}
         | Some cap \<Rightarrow>
             {''Monthly limit exceeded. Spent this month: $'' @
              toFixed2 f (spec_spend_since (startOfMonth c) logs) @ '', limit: $'' @
              numToString f cap})
      else if k = 7 then
        {''Amount $'' @ numToString f (amount r) @ '' is under auto-approve threshold ($'' @
         numToString f (autoApproveUnder p) @ '')''}
      else
        {''Amount $'' @ numToString f (amount r) @ '' requires human approval (threshold: $'' @
         numToString f (requireApprovalAbove p) @ '')''})"

section \<open>Concrete inputs\<close>

text \<open>
  A number format for the examples (its \<open>toFixed2\<close> is right on the non-negative
  integers, which is all the examples render), a clock on 14 November 2023 in UTC, and
  a few requests and policies.
\<close>

definition example_format :: number_format where
  "example_format =
     \<lparr>otherToString = (\<lambda>x. ''NaN''), toFixed2 = (\<lambda>x. digits_of (nat \<lfloor>x\<rfloor>) @ ''.00'')\<rparr>"

definition example_clock :: clock where
  "example_clock =
     \<lparr>now = 1700000000000, startOfDay = 1699920000000, startOfMonth = 1698796800000\<rparr>"

definition request_of :: "real \<Rightarrow> string \<Rightarrow> string \<Rightarrow> PaymentRequest" where
  "request_of a m d =
     \<lparr>amount = a, merchant = m, description = d, req_currency = None, metadata = None\<rparr>"

definition policy_blocking_evil :: PolicyConfig where
  "policy_blocking_evil =
     DEFAULT_POLICY\<lparr>blockedMerchants := Some [''evil''], blockedKeywords := [''gambling'']\<rparr>"

definition policy_empty_merchant_entry :: PolicyConfig where
  "policy_empty_merchant_entry = DEFAULT_POLICY\<lparr>blockedMerchants := Some ['''', ''evil'']\<rparr>"

definition policy_empty_keyword :: PolicyConfig where
  "policy_empty_keyword = DEFAULT_POLICY\<lparr>blockedKeywords := ['''', ''gambling'']\<rparr>"

definition policy_zero_monthly :: PolicyConfig where
  "policy_zero_monthly = DEFAULT_POLICY\<lparr>monthlyLimit := Some 0\<rparr>"

text \<open>Ledger entries for the examples: an amount, whether it was approved, its time stamp.\<close>

definition log_entry :: "real \<Rightarrow> bool \<Rightarrow> int \<Rightarrow> TransactionLog" where
  "log_entry a ok t =
     \<lparr>log_id = ''entry'', timestamp = t, payment = request_of a ''store.com'' ''socks'',
      policyResult = \<lparr>action = (if ok then auto_approve else deny), reason = []\<rparr>,
      approved = ok, approvedBy = by_auto\<rparr>"

section \<open>The specification's reading of the spending windows\<close>

text \<open>
  The current local calendar day, as the specification has it: from local midnight to the
  next local midnight, 24 hours later (23 or 25 on a day the local clock changes).
  \<open>spec_today_total\<close> sums the approved entries stamped within that day.
\<close>

definition ms_per_day :: int where
  "ms_per_day = 86400000"

definition spec_in_today :: "clock \<Rightarrow> int \<Rightarrow> bool" where
  "spec_in_today c t = (startOfDay c \<le> t \<and> t < startOfDay c + ms_per_day)"

definition spec_today_total :: "clock \<Rightarrow> TransactionLog list \<Rightarrow> real" where
  "spec_today_total c logs =
     sum_list (map (\<lambda>l. amount (payment l))
       (filter (\<lambda>l. approved l \<and> spec_in_today c (timestamp l)) logs))"

section \<open>Serving several requests; example installations\<close>

text \<open>
  \<open>requestCards\<close> serves a list of requests one after the other, each with the
  environment of its moment, and returns the files as the last one leaves them.
\<close>

definition requestCards :: "ClawPay \<Rightarrow> world \<Rightarrow> (env \<times> PaymentRequest) list \<Rightarrow> world" where
  "requestCards cp w jobs = foldl (\<lambda>v (e, r). fst (requestCard cp e v r)) w jobs"

definition example_card :: CardDetails where
  "example_card =
     \<lparr>cardholderName = ''John Doe'', number = ''4242424242424242'', expMonth = ''12'',
      expYear = ''2027'', cvv = ''123'', billingAddress = None\<rparr>"

definition example_channels :: channels where
  "example_channels =
     \<lparr>terminal_channel = (\<lambda>p r t. Inr False),
      webhook_channel = (\<lambda>p r u t. Inr False),
      telegram_channel = (\<lambda>p r b c t. Inr False)\<rparr>"

definition example_env :: env where
  "example_env =
     \<lparr>fmt = example_format, clk = example_clock, uuid = ''00000000-0000-4000-8000-000000000000'',
      decipher = (\<lambda>k p. Inr example_card), chans = example_channels\<rparr>"

definition example_payload :: EncryptedPayload where
  "example_payload = \<lparr>iv = ''00'', authTag = ''00'', data = ''00''\<rparr>"

definition world_with_card :: "TransactionLog list option \<Rightarrow> world" where
  "world_with_card logs =
     \<lparr>vault_key = Some ''key'', vault_file = Some example_payload, log_file = logs, calls = []\<rparr>"

definition world_without_card :: world where
  "world_without_card =
     \<lparr>vault_key = Some ''key'', vault_file = None, log_file = None, calls = []\<rparr>"

definition default_clawpay :: ClawPay where
  "default_clawpay = \<lparr>config = DEFAULT_CONFIG, onApproval = None\<rparr>"

definition clawpay_without_logging :: ClawPay where
  "clawpay_without_logging =
     \<lparr>config = DEFAULT_CONFIG\<lparr>logging := \<lparr>enabled = False, path = []\<rparr>\<rparr>, onApproval = None\<rparr>"

section \<open>The specification's reading of replies and signals\<close>

text \<open>
  The normalized reply, the two token sets of the WhatsApp channel, and the decision a
  signal stands for on the terminal: a timeout denies, a typed line approves when it
  normalizes to \<open>yes\<close>.
\<close>

definition normalized :: "string \<Rightarrow> string" where
  "normalized reply = toLowerCase (trim reply)"

definition affirmative_tokens :: "string set" where
  "affirmative_tokens = {''yes'', ''approve'', ''y'', ''approved''}"

definition negative_tokens :: "string set" where
  "negative_tokens = {''no'', ''deny'', ''n'', ''denied'', ''reject''}"

definition signal_decision :: "signal \<Rightarrow> bool" where
  "signal_decision sig = (case sig of Timer_fires \<Rightarrow> False | Line_typed answer \<Rightarrow> normalized answer = ''yes'')"

definition clawpay_with_callback :: ClawPay where
  "clawpay_with_callback =
     \<lparr>config = DEFAULT_CONFIG\<lparr>approval := (approval DEFAULT_CONFIG)\<lparr>timeout := None\<rparr>\<rparr>,
      onApproval = Some (\<lambda>p r t. if t = 300000 then Inr False else Inl (Error ''other timeout''))\<rparr>"

section \<open>Lemmas\<close>

lemma str_includes_sublist: "str_includes s t = sublist t s"
  by (induction s) (auto simp: sublist_Cons_right)

lemma truthy_string_simps [simp]:
  "truthy_string None = False" "truthy_string (Some s) = (s \<noteq> [])"
  by (simp_all add: truthy_string_def)

lemma truthy_number_simps [simp]:
  "truthy_number None = False" "truthy_number (Some x) = (x \<noteq> 0)"
  by (simp_all add: truthy_number_def)

lemma truthy_find:
  "[] \<notin> set xs \<Longrightarrow> truthy_string (find P xs) = (\<exists>x \<in> set xs. P x)"
  by (induction xs) auto

lemma find_in_set: "find P xs = Some x \<Longrightarrow> x \<in> set xs \<and> P x"
  by (induction xs) (auto split: if_splits)

lemma blocked_merchant_iff:
  assumes "[] \<notin> set (opt_list (blockedMerchants p))"
  shows "truthy_string (blockedMerchantFound p r) = spec_merchant_blocked p r"
proof (cases "blockedMerchants p")
  case None
  then show ?thesis
    by (simp add: blockedMerchantFound_def has_length_def spec_merchant_blocked_def opt_list_def)
next
  case (Some ms)
  with assms have "[] \<notin> set ms" by (simp add: opt_list_def)
  then show ?thesis using Some
    by (auto simp add: blockedMerchantFound_def has_length_def spec_merchant_blocked_def
        opt_list_def truthy_find str_includes_sublist ci_substring_def)
qed

lemma not_allowed_iff:
  "(has_length (allowedMerchants p) \<and> \<not> merchantAllowed p r) = spec_not_allowed p r"
  by (cases "allowedMerchants p")
     (auto simp add: has_length_def merchantAllowed_def spec_not_allowed_def opt_list_def
        list_ex_iff str_includes_sublist ci_substring_def)

lemma keyword_iff:
  assumes "[] \<notin> set (blockedKeywords p)"
  shows "truthy_string (blockedKeywordFound p r) = spec_keyword_blocked p r"
  using assms
  by (auto simp add: blockedKeywordFound_def spec_keyword_blocked_def spec_keyword_match_def
      truthy_find str_includes_sublist ci_substring_def)

lemma keyword_found:
  assumes "truthy_string (blockedKeywordFound p r)"
  shows "\<exists>kw \<in> set (blockedKeywords p).
           spec_keyword_match r kw \<and> blockedKeywordFound p r = Some kw"
proof -
  from assms obtain kw where kw: "blockedKeywordFound p r = Some kw"
    by (cases "blockedKeywordFound p r") auto
  then have "kw \<in> set (blockedKeywords p) \<and> spec_keyword_match r kw"
    by (auto simp: blockedKeywordFound_def spec_keyword_match_def str_includes_sublist
        ci_substring_def split: if_splits dest!: find_in_set)
  with kw show ?thesis by blast
qed

lemma sublist_append_mid: "sublist x (a @ x @ b)"
  by (auto simp: sublist_def)

lemmas example_defs =
  example_format_def example_clock_def request_of_def DEFAULT_POLICY_def

lemmas evaluate_defs =
  evaluate_def Let_def blockedMerchantFound_def blockedKeywordFound_def merchantAllowed_def
  has_length_def truthy_number_def getTodaySpending_def getMonthSpending_def
  toLowerCase_def lower_char_def numToString_def digits_of.simps digit_char_def

lemmas spec_defs =
  spec_rule_def spec_action_def rule_reason_def spec_over_ceiling_def
  spec_merchant_blocked_def spec_not_allowed_def spec_keyword_blocked_def
  spec_keyword_match_def spec_daily_exceeded_def spec_monthly_exceeded_def
  spec_spend_since_def approved_since_def ci_substring_def opt_list_def

lemma foldl_amounts:
  "foldl (\<lambda>sum l. sum + amount (payment l)) a xs
     = a + sum_list (map (\<lambda>l. amount (payment l)) xs)"
  by (induction xs arbitrary: a) simp_all

lemma today_as_sum:
  "getTodaySpending c logs
     = sum_list (map (\<lambda>l. amount (payment l))
         (filter (\<lambda>l. approved l \<and> startOfDay c \<le> timestamp l) logs))"
  by (simp add: getTodaySpending_def foldl_amounts)

lemma month_as_sum:
  "getMonthSpending c logs
     = sum_list (map (\<lambda>l. amount (payment l))
         (filter (\<lambda>l. approved l \<and> startOfMonth c \<le> timestamp l) logs))"
  by (simp add: getMonthSpending_def foldl_amounts)

lemma today_is_spend_since: "getTodaySpending c logs = spec_spend_since (startOfDay c) logs"
  by (simp add: today_as_sum spec_spend_since_def approved_since_def)

lemma month_is_spend_since: "getMonthSpending c logs = spec_spend_since (startOfMonth c) logs"
  by (simp add: month_as_sum spec_spend_since_def approved_since_def)

lemma monthly_iff:
  "(truthy_number (monthlyLimit p) \<and> getMonthSpending c logs + amount r > the (monthlyLimit p))
    = spec_monthly_exceeded p c logs r"
  by (cases "monthlyLimit p") (auto simp: spec_monthly_exceeded_def month_is_spend_since)

lemma is_double_of_int: "\<bar>n\<bar> < 2 ^ 53 \<Longrightarrow> is_double (of_int n)"
  unfolding is_double_def by (intro exI [of _ n] exI [of _ 0]) simp

lemma filter_approved_twice:
  "filter (\<lambda>l. approved l \<and> Q l) (filter approved xs) = filter (\<lambda>l. approved l \<and> Q l) xs"
  by (induction xs) auto

lemma logTransaction_disabled:
  "\<not> enabled (logging (config cp)) \<Longrightarrow> logTransaction cp e w pay pr a b = w"
  by (simp add: logTransaction_def)

lemma called_log_file [simp]: "log_file (called x w) = log_file w"
  by (simp add: called_def)

lemma requestCard_log_file_disabled:
  assumes "\<not> enabled (logging (config cp))"
  shows "log_file (fst (requestCard cp e w r)) = log_file w"
  using assms
  by (auto simp add: requestCard_def Let_def logTransaction_disabled
      split: sum.splits option.splits)

lemma requestCards_log_file_disabled:
  assumes "\<not> enabled (logging (config cp))"
  shows "log_file (requestCards cp w jobs) = log_file w"
  unfolding requestCards_def
proof (induction jobs arbitrary: w)
  case Nil
  then show ?case by simp
next
  case (Cons j jobs)
  obtain e r where j: "j = (e, r)" by (cases j)
  show ?case
    using Cons.IH [of "fst (requestCard cp e w r)"]
      requestCard_log_file_disabled [OF assms, of e w r]
    by (simp add: j)
qed

lemmas facade_example_defs =
  example_env_def example_channels_def example_card_def example_payload_def
  world_with_card_def DEFAULT_CONFIG_def

lemmas decision_defs =
  policy_decision_def PolicyEngine_def spread_key_def getTransactionLogs_def

lemma lower_char_cases:
  "lower_char c = c \<or> c \<in> set ''ABCDEFGHIJKLMNOPQRSTUVWXYZ''"
  by (simp add: lower_char_def)

lemma is_space_lower_char [simp]: "is_space (lower_char c) = is_space c"
proof (cases "c \<in> set ''ABCDEFGHIJKLMNOPQRSTUVWXYZ''")
  case True
  then show ?thesis by (auto simp add: lower_char_def is_space_def)
next
  case False
  with lower_char_cases [of c] show ?thesis by simp
qed

lemma dropWhile_space_lower:
  "dropWhile is_space (toLowerCase s) = toLowerCase (dropWhile is_space s)"
  by (simp add: toLowerCase_def dropWhile_map comp_def)

lemma trim_toLowerCase: "trim (toLowerCase s) = toLowerCase (trim s)"
  by (simp add: trim_def dropWhile_space_lower toLowerCase_def rev_map dropWhile_map comp_def)

lemma normalized_only_lower:
  "toLowerCase a = toLowerCase b \<Longrightarrow> normalized a = normalized b"
  unfolding normalized_def by (metis trim_toLowerCase)

lemma toLowerCase_empty [simp]: "(toLowerCase s = []) = (s = [])"
  by (simp add: toLowerCase_def)

lemma resolve_settled: "promise s \<noteq> None \<Longrightarrow> resolve v s = s"
  by (cases "promise s") (simp_all add: resolve_def)

lemma deliver_first:
  "deliver sig terminal_pending
     = \<lparr>promise = Some (signal_decision sig), timer_armed = False, rl_open = False,
        console = [case sig of
                     Timer_fires \<Rightarrow> [CHR 0x0A] @ sym_clock @ '' Approval timed out. Payment denied.''
                   | Line_typed answer \<Rightarrow>
                       if normalized answer = ''yes'' then sym_check @ '' Payment approved.''
                       else sym_cross @ '' Payment denied.'']\<rparr>"
  by (cases sig)
     (simp_all add: deliver_def terminal_pending_def on_timeout_def on_answer_def resolve_def
        signal_decision_def normalized_def Let_def)

lemma deliver_idle: "\<not> timer_armed s \<Longrightarrow> \<not> rl_open s \<Longrightarrow> deliver sig s = s"
  by (cases sig) (simp_all add: deliver_def)

lemma run_idle:
  "\<not> timer_armed s \<Longrightarrow> \<not> rl_open s \<Longrightarrow> foldl (\<lambda>s sig. deliver sig s) s sigs = s"
  by (induction sigs) (simp_all add: deliver_idle)

lemma terminal_run_first: "terminal_run (sig # sigs) = deliver sig terminal_pending"
  unfolding terminal_run_def by (simp add: deliver_first run_idle)

section \<open>The policy evaluator\<close>

text \<open>
  Claim C1, as the code has it. For every request, policy, clock and ledger snapshot,
  \<open>evaluate\<close> answers with the first rule, in the order 1 to 8, whose condition holds,
  and gives that rule's reason: (1) amount above \<open>blockAbove\<close>, deny; (2) the merchant
  contains a blocked-merchant entry, ignoring case, deny; (3) a non-empty allow-list
  none of whose entries the merchant contains, deny; (4) a blocked keyword contained in
  the description or the merchant, deny; (5) the sum of the approved amounts stamped at
  or after local midnight of the current day, plus the amount, above \<open>dailyLimit\<close>,
  deny; (6) a monthly limit configured and not zero, and the sum of the approved amounts
  stamped at or after local midnight of the first of the current month, plus the amount,
  above it, deny; (7) amount at most \<open>autoApproveUnder\<close>, auto_approve; (8) otherwise
  require_approval. Neither window has an upper bound, and a monthly limit of zero counts
  as not configured. This holds for policies whose blocked-merchant and blocked-keyword
  lists have no empty entry, for merchants, descriptions and list entries of ASCII
  characters, and for numbers that are doubles whose sums are exact in double
  arithmetic.
\<close>

theorem evaluate_first_rule_wins:
  assumes "[] \<notin> set (opt_list (blockedMerchants p))"
    and "[] \<notin> set (blockedKeywords p)"
    and "ascii_policy p" and "ascii_request r"
    and "double_values p logs r"
    and "sums_exact (startOfDay c) logs (amount r)"
    and "sums_exact (startOfMonth c) logs (amount r)"
  shows "action (evaluate f p c logs r) = spec_action (spec_rule p c logs r) \<and>
         reason (evaluate f p c logs r) \<in> rule_reason f p c logs r (spec_rule p c logs r)"
proof -
  note iffs = blocked_merchant_iff [OF assms(1), of r] not_allowed_iff [of p r]
    keyword_iff [OF assms(2), of r] monthly_iff [of p c logs r]
  note sums = today_is_spend_since [of c logs] month_is_spend_since [of c logs]
  show ?thesis
  proof (cases "spec_keyword_blocked p r")
    case True
    then have "truthy_string (blockedKeywordFound p r)" using iffs by simp
    from keyword_found [OF this] obtain kw where
      "kw \<in> set (blockedKeywords p)" "spec_keyword_match r kw"
      "blockedKeywordFound p r = Some kw"
      by blast
    then show ?thesis using iffs True
      by (auto simp add: evaluate_def Let_def spec_rule_def spec_action_def rule_reason_def
          spec_over_ceiling_def spec_daily_exceeded_def quoted_def)
  next
    case False
    show ?thesis
    proof (cases "monthlyLimit p")
      case None
      then show ?thesis using iffs False
        unfolding evaluate_def sums
        by (auto simp add: Let_def spec_rule_def spec_action_def rule_reason_def
            spec_over_ceiling_def spec_daily_exceeded_def quoted_def)
    next
      case (Some cap)
      then show ?thesis using iffs False
        unfolding evaluate_def sums
        by (auto simp add: Let_def spec_rule_def spec_action_def rule_reason_def
            spec_over_ceiling_def spec_daily_exceeded_def quoted_def)
    qed
  qed
qed

text \<open>
  The theorem at a policy that blocks the merchant entry \<open>evil\<close> and the keyword
  \<open>gambling\<close>, a ledger with 190 approved today, and a request of 20 to \<open>Store.com\<close>:
  no list matches, 190 + 20 is above the daily limit of 200, and rule 5 answers although
  20 is under the auto-approve threshold.
\<close>

theorem evaluate_first_rule_wins_witness:
  "[] \<notin> set (opt_list (blockedMerchants policy_blocking_evil)) \<and>
   [] \<notin> set (blockedKeywords policy_blocking_evil) \<and>
   ascii_policy policy_blocking_evil \<and>
   ascii_request (request_of 20 ''Store.com'' ''socks'') \<and>
   double_values policy_blocking_evil [log_entry 190 True 1699930000000]
     (request_of 20 ''Store.com'' ''socks'') \<and>
   sums_exact (startOfDay example_clock) [log_entry 190 True 1699930000000] 20 \<and>
   sums_exact (startOfMonth example_clock) [log_entry 190 True 1699930000000] 20 \<and>
   action (evaluate example_format policy_blocking_evil example_clock
             [log_entry 190 True 1699930000000] (request_of 20 ''Store.com'' ''socks'')) = deny \<and>
   reason (evaluate example_format policy_blocking_evil example_clock
             [log_entry 190 True 1699930000000] (request_of 20 ''Store.com'' ''socks''))
     = ''Daily limit exceeded. Spent today: $190.00, limit: $200''"
proof -
  let ?logs = "[log_entry 190 True 1699930000000]"
  let ?r = "request_of 20 ''Store.com'' ''socks''"
  have h1: "[] \<notin> set (opt_list (blockedMerchants policy_blocking_evil))"
    by (simp add: policy_blocking_evil_def example_defs opt_list_def)
  have h2: "[] \<notin> set (blockedKeywords policy_blocking_evil)"
    by (simp add: policy_blocking_evil_def example_defs)
  have h3: "ascii_policy policy_blocking_evil"
    by (simp add: ascii_policy_def ascii_def policy_blocking_evil_def example_defs opt_list_def)
  have h4: "ascii_request ?r"
    by (simp add: ascii_request_def ascii_def request_of_def)
  have d190: "is_double 190" and d210: "is_double 210" and d20: "is_double 20"
    and d25: "is_double 25" and d200: "is_double 200" and d1000: "is_double 1000"
    and d2000: "is_double 2000"
    using is_double_of_int [of 190] is_double_of_int [of 210] is_double_of_int [of 20]
      is_double_of_int [of 25] is_double_of_int [of 200] is_double_of_int [of 1000]
      is_double_of_int [of 2000]
    by simp_all
  have hd: "double_values policy_blocking_evil ?logs ?r"
    by (simp add: double_values_def policy_blocking_evil_def DEFAULT_POLICY_def request_of_def
        log_entry_def d190 d20 d25 d200 d1000 d2000)
  have day: "approved_since (startOfDay example_clock) ?logs = [190]"
    and month: "approved_since (startOfMonth example_clock) ?logs = [190]"
    by (simp_all add: approved_since_def log_entry_def example_defs)
  have h5: "sums_exact (startOfDay example_clock) ?logs 20"
    by (simp add: sums_exact_def spec_spend_since_def day d190 d210)
  have h6: "sums_exact (startOfMonth example_clock) ?logs 20"
    by (simp add: sums_exact_def spec_spend_since_def month d190 d210)
  have amt: "amount ?r = 20"
    by (simp add: request_of_def)
  have h5': "sums_exact (startOfDay example_clock) ?logs (amount ?r)"
    and h6': "sums_exact (startOfMonth example_clock) ?logs (amount ?r)"
    unfolding amt by (rule h5, rule h6)
  have rule: "spec_rule policy_blocking_evil example_clock ?logs ?r = 5"
    by (simp add: spec_rule_def spec_over_ceiling_def spec_merchant_blocked_def
        spec_not_allowed_def spec_keyword_blocked_def spec_keyword_match_def
        spec_daily_exceeded_def ci_substring_def opt_list_def spec_spend_since_def day
        policy_blocking_evil_def DEFAULT_POLICY_def request_of_def toLowerCase_def
        lower_char_def sublist_code)
  have "action (evaluate example_format policy_blocking_evil example_clock ?logs ?r)
          = spec_action 5 \<and>
        reason (evaluate example_format policy_blocking_evil example_clock ?logs ?r)
          \<in> rule_reason example_format policy_blocking_evil example_clock ?logs ?r 5"
    using evaluate_first_rule_wins [OF h1 h2 h3 h4 hd h5' h6', of example_format]
    unfolding rule .
  then have "action (evaluate example_format policy_blocking_evil example_clock ?logs ?r) = deny"
    and "reason (evaluate example_format policy_blocking_evil example_clock ?logs ?r)
           = ''Daily limit exceeded. Spent today: $190.00, limit: $200''"
    by (simp_all add: spec_action_def rule_reason_def spec_spend_since_def day
        policy_blocking_evil_def DEFAULT_POLICY_def example_format_def numToString_def
        digits_of.simps digit_char_def)
  then show ?thesis using h1 h2 h3 h4 hd h5 h6 by simp
qed

text \<open>
  Claim C1 as it is stated fails at four inputs. With the blocked merchants
  \<open>['''', ''evil'']\<close> the merchant \<open>evil.com\<close> contains a blocked entry, yet a request of
  10 is auto-approved: \<open>find\<close> returns the empty entry, which is falsy. The same happens
  with the blocked keywords \<open>['''', ''gambling'']\<close> and the description
  \<open>gambling chips\<close>. With a monthly limit configured as 0, a request of 10 exceeds it and
  is auto-approved. With an approved entry of 190 stamped ten days after the current
  day, the spend within the current day is 0 and a request of 20 stays under the daily
  limit of 200 and the auto-approve threshold, yet it is denied.
\<close>

theorem evaluate_first_rule_wins_counterexample:
  "(\<not> spec_over_ceiling policy_empty_merchant_entry (request_of 10 ''evil.com'' ''socks'') \<and>
    spec_merchant_blocked policy_empty_merchant_entry (request_of 10 ''evil.com'' ''socks'') \<and>
    action (evaluate example_format policy_empty_merchant_entry example_clock []
              (request_of 10 ''evil.com'' ''socks'')) = auto_approve) \<and>
   (spec_rule policy_empty_keyword example_clock []
      (request_of 10 ''store.com'' ''gambling chips'') = 4 \<and>
    action (evaluate example_format policy_empty_keyword example_clock []
              (request_of 10 ''store.com'' ''gambling chips'')) = auto_approve) \<and>
   (monthlyLimit policy_zero_monthly = Some 0 \<and>
    spec_spend_since (startOfMonth example_clock) [] +
      amount (request_of 10 ''store.com'' ''socks'') > 0 \<and>
    spec_rule policy_zero_monthly example_clock [] (request_of 10 ''store.com'' ''socks'') = 7 \<and>
    action (evaluate example_format policy_zero_monthly example_clock []
              (request_of 10 ''store.com'' ''socks'')) = auto_approve) \<and>
   (spec_today_total example_clock [log_entry 190 True 1700784000000] +
      amount (request_of 20 ''store.com'' ''socks'') \<le> dailyLimit DEFAULT_POLICY \<and>
    amount (request_of 20 ''store.com'' ''socks'') \<le> autoApproveUnder DEFAULT_POLICY \<and>
    action (evaluate example_format DEFAULT_POLICY example_clock
              [log_entry 190 True 1700784000000] (request_of 20 ''store.com'' ''socks'')) = deny)"
proof -
  have a: "spec_merchant_blocked policy_empty_merchant_entry
             (request_of 10 ''evil.com'' ''socks'')"
    by (simp add: spec_defs policy_empty_merchant_entry_def example_defs toLowerCase_def)
  have b: "action (evaluate example_format policy_empty_merchant_entry example_clock []
             (request_of 10 ''evil.com'' ''socks'')) = auto_approve"
    by (simp add: evaluate_defs policy_empty_merchant_entry_def example_defs)
  have c: "spec_rule policy_empty_keyword example_clock []
             (request_of 10 ''store.com'' ''gambling chips'') = 4"
    by (simp add: spec_defs policy_empty_keyword_def example_defs toLowerCase_def)
  have d: "action (evaluate example_format policy_empty_keyword example_clock []
             (request_of 10 ''store.com'' ''gambling chips'')) = auto_approve"
    by (simp add: evaluate_defs policy_empty_keyword_def example_defs)
  have e: "spec_rule policy_zero_monthly example_clock []
             (request_of 10 ''store.com'' ''socks'') = 7"
    by (simp add: spec_defs policy_zero_monthly_def example_defs)
  have g: "action (evaluate example_format policy_zero_monthly example_clock []
             (request_of 10 ''store.com'' ''socks'')) = auto_approve"
    by (simp add: evaluate_defs policy_zero_monthly_def example_defs)
  have h: "spec_today_total example_clock [log_entry 190 True 1700784000000] = 0"
    by (simp add: spec_today_total_def spec_in_today_def log_entry_def example_clock_def
        ms_per_day_def)
  have k: "action (evaluate example_format DEFAULT_POLICY example_clock
             [log_entry 190 True 1700784000000] (request_of 20 ''store.com'' ''socks'')) = deny"
    by (simp add: evaluate_defs log_entry_def example_defs)
  show ?thesis using a b c d e g h k
    by (simp add: spec_over_ceiling_def policy_empty_merchant_entry_def policy_zero_monthly_def
        example_defs spec_spend_since_def approved_since_def)
qed

text \<open>
  Claim C2. For every request whose amount is strictly above \<open>blockAbove\<close>, whatever the
  other fields of the request, the rest of the policy, the clock and the ledger,
  \<open>evaluate\<close> denies, and the reason is the sentence that cites the amount and the
  ceiling, so both renderings occur in it. With \<open>blockAbove\<close> 1000 and amount 5000 the
  reason contains the text 1000.
\<close>

theorem evaluate_denies_above_ceiling:
  assumes "amount r > blockAbove p"
  shows "action (evaluate f p c logs r) = deny \<and>
         reason (evaluate f p c logs r)
           = ''Amount $'' @ numToString f (amount r) @ '' exceeds maximum allowed ($'' @
             numToString f (blockAbove p) @ '')'' \<and>
         sublist (numToString f (amount r)) (reason (evaluate f p c logs r)) \<and>
         sublist (numToString f (blockAbove p)) (reason (evaluate f p c logs r)) \<and>
         (blockAbove p = 1000 \<longrightarrow> amount r = 5000 \<longrightarrow>
            sublist ''1000'' (reason (evaluate f p c logs r)))"
proof -
  let ?res = "evaluate f p c logs r"
  have res: "?res = \<lparr>action = deny,
      reason = ''Amount $'' @ numToString f (amount r) @ '' exceeds maximum allowed ($'' @
               numToString f (blockAbove p) @ '')''\<rparr>"
    using assms by (simp add: evaluate_def Let_def)
  have amt: "sublist (numToString f (amount r)) (reason ?res)"
    unfolding res using sublist_append_mid [of "numToString f (amount r)" "''Amount $''"]
    by simp
  have ceil: "sublist (numToString f (blockAbove p)) (reason ?res)"
    unfolding res
    using sublist_append_mid [of "numToString f (blockAbove p)"
        "''Amount $'' @ numToString f (amount r) @ '' exceeds maximum allowed ($''" "'')''"]
    by simp
  have thousand: "numToString f 1000 = ''1000''"
    by (simp add: numToString_def digits_of.simps digit_char_def)
  show ?thesis using res amt ceil thousand by auto
qed

text \<open>The theorem at the default policy (ceiling 1000) and a request of 5000.\<close>

theorem evaluate_denies_above_ceiling_witness:
  "amount (request_of 5000 ''store.com'' ''a yacht'') > blockAbove DEFAULT_POLICY \<and>
   action (evaluate example_format DEFAULT_POLICY example_clock []
             (request_of 5000 ''store.com'' ''a yacht'')) = deny \<and>
   sublist ''1000'' (reason (evaluate example_format DEFAULT_POLICY example_clock []
                               (request_of 5000 ''store.com'' ''a yacht'')))"
proof -
  have h: "amount (request_of 5000 ''store.com'' ''a yacht'') > blockAbove DEFAULT_POLICY"
    by (simp add: example_defs)
  have vals: "blockAbove DEFAULT_POLICY = 1000"
    "amount (request_of 5000 ''store.com'' ''a yacht'') = 5000"
    by (simp_all add: example_defs)
  from evaluate_denies_above_ceiling [OF h, of example_format example_clock "[]"] vals h
  show ?thesis by blast
qed

section \<open>The spending aggregates\<close>

text \<open>
  Claim C3, as the code has it. For every ledger, the daily aggregate is the sum of the
  amounts of exactly the entries with \<open>approved = true\<close> and a time stamp at or after
  local midnight of the current day. No upper bound is applied, so for a ledger with no
  entry stamped after the end of the current day these are exactly the approved entries
  of the current local calendar day. Entries with \<open>approved = false\<close> never contribute
  to the daily or the monthly aggregate: dropping all of them, or inserting one anywhere,
  changes neither.
\<close>

theorem daily_aggregate_from_midnight:
  "getTodaySpending c logs
     = sum_list (map (\<lambda>l. amount (payment l))
         (filter (\<lambda>l. approved l \<and> startOfDay c \<le> timestamp l) logs)) \<and>
   ((\<forall>l \<in> set logs. timestamp l < startOfDay c + ms_per_day) \<longrightarrow>
      getTodaySpending c logs = spec_today_total c logs) \<and>
   getTodaySpending c (filter approved logs) = getTodaySpending c logs \<and>
   getMonthSpending c (filter approved logs) = getMonthSpending c logs \<and>
   (\<not> approved d \<longrightarrow>
      getTodaySpending c (xs @ d # ys) = getTodaySpending c (xs @ ys) \<and>
      getMonthSpending c (xs @ d # ys) = getMonthSpending c (xs @ ys))"
proof -
  have window: "getTodaySpending c logs = spec_today_total c logs"
    if "\<forall>l \<in> set logs. timestamp l < startOfDay c + ms_per_day"
  proof -
    have "filter (\<lambda>l. approved l \<and> startOfDay c \<le> timestamp l) logs
            = filter (\<lambda>l. approved l \<and> spec_in_today c (timestamp l)) logs"
      using that by (intro filter_cong) (auto simp: spec_in_today_def)
    then show ?thesis by (simp add: today_as_sum spec_today_total_def)
  qed
  have drop_day: "getTodaySpending c (filter approved logs) = getTodaySpending c logs"
    by (simp add: today_as_sum filter_approved_twice)
  have drop_month: "getMonthSpending c (filter approved logs) = getMonthSpending c logs"
    by (simp add: month_as_sum filter_approved_twice)
  have ins: "getTodaySpending c (xs @ d # ys) = getTodaySpending c (xs @ ys) \<and>
             getMonthSpending c (xs @ d # ys) = getMonthSpending c (xs @ ys)"
    if "\<not> approved d"
    using that by (simp add: today_as_sum month_as_sum)
  show ?thesis
  proof (intro conjI impI)
    assume "\<forall>l \<in> set logs. timestamp l < startOfDay c + ms_per_day"
    then show "getTodaySpending c logs = spec_today_total c logs" by (rule window)
  next
    assume "\<not> approved d"
    then show "getTodaySpending c (xs @ d # ys) = getTodaySpending c (xs @ ys)"
      using ins by simp
  next
    assume "\<not> approved d"
    then show "getMonthSpending c (xs @ d # ys) = getMonthSpending c (xs @ ys)"
      using ins by simp
  qed (rule today_as_sum drop_day drop_month)+
qed

text \<open>
  The theorem at a ledger with 100 approved today, 500 denied today and 70 approved the
  day before: the aggregate is the day's approved total, 100.
\<close>

theorem daily_aggregate_from_midnight_witness:
  "list_all (\<lambda>l. timestamp l < startOfDay example_clock + ms_per_day)
     [log_entry 100 True 1699930000000, log_entry 500 False 1699940000000,
      log_entry 70 True 1699900000000] \<and>
   \<not> approved (log_entry 500 False 1699940000000) \<and>
   getTodaySpending example_clock
     [log_entry 100 True 1699930000000, log_entry 500 False 1699940000000,
      log_entry 70 True 1699900000000] = 100 \<and>
   getTodaySpending example_clock
     ([log_entry 100 True 1699930000000] @ log_entry 500 False 1699940000000 #
      [log_entry 70 True 1699900000000])
     = getTodaySpending example_clock
         ([log_entry 100 True 1699930000000] @ [log_entry 70 True 1699900000000])"
proof -
  let ?logs = "[log_entry 100 True 1699930000000, log_entry 500 False 1699940000000,
                log_entry 70 True 1699900000000]"
  have h: "\<forall>l \<in> set ?logs. timestamp l < startOfDay example_clock + ms_per_day"
    by (simp add: log_entry_def example_clock_def ms_per_day_def)
  have d: "\<not> approved (log_entry 500 False 1699940000000)"
    by (simp add: log_entry_def)
  have total: "spec_today_total example_clock ?logs = 100"
    by (simp add: spec_today_total_def spec_in_today_def log_entry_def example_clock_def
        ms_per_day_def request_of_def)
  note inst = daily_aggregate_from_midnight [of example_clock ?logs
      "log_entry 500 False 1699940000000" "[log_entry 100 True 1699930000000]"
      "[log_entry 70 True 1699900000000]"]
  from inst h have "getTodaySpending example_clock ?logs = spec_today_total example_clock ?logs"
    by blast
  moreover from inst d have
    "getTodaySpending example_clock
       ([log_entry 100 True 1699930000000] @ log_entry 500 False 1699940000000 #
        [log_entry 70 True 1699900000000])
     = getTodaySpending example_clock
         ([log_entry 100 True 1699930000000] @ [log_entry 70 True 1699900000000])"
    by blast
  ultimately show ?thesis using h d total by (intro conjI) (simp_all add: list_all_iff)
qed

text \<open>
  Claim C3 as it is stated fails at a ledger holding one approved entry of 50 stamped
  ten days after the current local midnight: the entry is not within the current day,
  and the daily aggregate counts it.
\<close>

theorem daily_aggregate_from_midnight_counterexample:
  "approved (log_entry 50 True 1700784000000) \<and>
   \<not> spec_in_today example_clock (timestamp (log_entry 50 True 1700784000000)) \<and>
   spec_today_total example_clock [log_entry 50 True 1700784000000] = 0 \<and>
   getTodaySpending example_clock [log_entry 50 True 1700784000000] = 50"
  by (simp add: spec_today_total_def spec_in_today_def getTodaySpending_def log_entry_def
      example_clock_def ms_per_day_def request_of_def)

section \<open>The ledger switch and the facade\<close>

text \<open>
  Claim C4, as the code has it. When logging is disabled, \<open>requestCard\<close> appends nothing
  to the ledger: the transaction log is the same after one request, and after any
  sequence of requests, as before, so the policy decision on a request is the same after
  the sequence as before it. Policy evaluation does not look at the logging switch: the
  decision is the one taken with any other logging configuration on the same log, so
  entries written before logging was disabled count as they do with logging enabled. The
  historical spend of the day is zero whenever the log holds no approved entry stamped at
  or after the start of the day, in particular when the log is absent or empty, and
  likewise for the month.
\<close>

theorem logging_disabled_appends_nothing:
  assumes "\<not> enabled (logging (config cp))"
  shows "log_file (fst (requestCard cp e w r)) = log_file w \<and>
         log_file (requestCards cp w jobs) = log_file w \<and>
         policy_decision cp e' (requestCards cp w jobs) r' = policy_decision cp e' w r' \<and>
         policy_decision (cp\<lparr>config := (config cp)\<lparr>logging := lg\<rparr>\<rparr>) e' w r'
           = policy_decision cp e' w r' \<and>
         ((\<forall>l \<in> set (getTransactionLogs w). approved l \<longrightarrow> timestamp l < startOfDay c) \<longrightarrow>
            getTodaySpending c (getTransactionLogs (requestCards cp w jobs)) = 0) \<and>
         ((\<forall>l \<in> set (getTransactionLogs w). approved l \<longrightarrow> timestamp l < startOfMonth c) \<longrightarrow>
            getMonthSpending c (getTransactionLogs (requestCards cp w jobs)) = 0)"
proof -
  have one: "log_file (fst (requestCard cp e w r)) = log_file w"
    by (rule requestCard_log_file_disabled [OF assms])
  have many: "log_file (requestCards cp w jobs) = log_file w"
    by (rule requestCards_log_file_disabled [OF assms])
  have same: "getTransactionLogs (requestCards cp w jobs) = getTransactionLogs w"
    by (simp add: getTransactionLogs_def many)
  have later: "policy_decision cp e' (requestCards cp w jobs) r' = policy_decision cp e' w r'"
    by (simp add: policy_decision_def same)
  have switch: "policy_decision (cp\<lparr>config := (config cp)\<lparr>logging := lg\<rparr>\<rparr>) e' w r'
                  = policy_decision cp e' w r'"
    by (simp add: policy_decision_def)
  have day: "getTodaySpending c (getTransactionLogs (requestCards cp w jobs)) = 0"
    if "\<forall>l \<in> set (getTransactionLogs w). approved l \<longrightarrow> timestamp l < startOfDay c"
  proof -
    have "filter (\<lambda>l. approved l \<and> startOfDay c \<le> timestamp l) (getTransactionLogs w) = []"
      using that by (auto simp: filter_empty_conv)
    then show ?thesis by (simp add: same today_as_sum)
  qed
  have month: "getMonthSpending c (getTransactionLogs (requestCards cp w jobs)) = 0"
    if "\<forall>l \<in> set (getTransactionLogs w). approved l \<longrightarrow> timestamp l < startOfMonth c"
  proof -
    have "filter (\<lambda>l. approved l \<and> startOfMonth c \<le> timestamp l) (getTransactionLogs w) = []"
      using that by (auto simp: filter_empty_conv)
    then show ?thesis by (simp add: same month_as_sum)
  qed
  show ?thesis
  proof (intro conjI impI)
    assume "\<forall>l \<in> set (getTransactionLogs w). approved l \<longrightarrow> timestamp l < startOfDay c"
    then show "getTodaySpending c (getTransactionLogs (requestCards cp w jobs)) = 0"
      by (rule day)
  next
    assume "\<forall>l \<in> set (getTransactionLogs w). approved l \<longrightarrow> timestamp l < startOfMonth c"
    then show "getMonthSpending c (getTransactionLogs (requestCards cp w jobs)) = 0"
      by (rule month)
  qed (rule one many later switch)+
qed

text \<open>
  The theorem at an installation with logging disabled whose log holds a denied entry of
  today and an approved entry of 70 of the month before, serving an auto-approved
  request of 20 and a denied request of 5000: the log is left as it was, the spend of
  the day and of the month stay zero, and a further request of 20 is decided as with
  logging enabled.
\<close>

theorem logging_disabled_appends_nothing_witness:
  "\<not> enabled (logging (config clawpay_without_logging)) \<and>
   list_all (\<lambda>l. \<not> approved l \<or> timestamp l < startOfMonth example_clock)
     (getTransactionLogs (world_with_card
        (Some [log_entry 500 False 1699930000000, log_entry 70 True 1698000000000]))) \<and>
   log_file (requestCards clawpay_without_logging
               (world_with_card
                  (Some [log_entry 500 False 1699930000000, log_entry 70 True 1698000000000]))
               [(example_env, request_of 20 ''store.com'' ''socks''),
                (example_env, request_of 5000 ''store.com'' ''a yacht'')])
     = Some [log_entry 500 False 1699930000000, log_entry 70 True 1698000000000] \<and>
   getTodaySpending example_clock
     (getTransactionLogs (requestCards clawpay_without_logging
        (world_with_card
           (Some [log_entry 500 False 1699930000000, log_entry 70 True 1698000000000]))
        [(example_env, request_of 20 ''store.com'' ''socks''),
         (example_env, request_of 5000 ''store.com'' ''a yacht'')])) = 0 \<and>
   getMonthSpending example_clock
     (getTransactionLogs (requestCards clawpay_without_logging
        (world_with_card
           (Some [log_entry 500 False 1699930000000, log_entry 70 True 1698000000000]))
        [(example_env, request_of 20 ''store.com'' ''socks''),
         (example_env, request_of 5000 ''store.com'' ''a yacht'')])) = 0 \<and>
   policy_decision (clawpay_without_logging\<lparr>config :=
       (config clawpay_without_logging)\<lparr>logging := logging DEFAULT_CONFIG\<rparr>\<rparr>) example_env
     (world_with_card
        (Some [log_entry 500 False 1699930000000, log_entry 70 True 1698000000000]))
     (request_of 20 ''store.com'' ''socks'')
   = policy_decision clawpay_without_logging example_env
       (requestCards clawpay_without_logging
          (world_with_card
             (Some [log_entry 500 False 1699930000000, log_entry 70 True 1698000000000]))
          [(example_env, request_of 20 ''store.com'' ''socks''),
           (example_env, request_of 5000 ''store.com'' ''a yacht'')])
       (request_of 20 ''store.com'' ''socks'')"
proof -
  let ?logs = "[log_entry 500 False 1699930000000, log_entry 70 True 1698000000000]"
  let ?w = "world_with_card (Some ?logs)"
  let ?jobs = "[(example_env, request_of 20 ''store.com'' ''socks''),
                (example_env, request_of 5000 ''store.com'' ''a yacht'')]"
  have h: "\<not> enabled (logging (config clawpay_without_logging))"
    by (simp add: clawpay_without_logging_def)
  have logs: "getTransactionLogs ?w = ?logs"
    by (simp add: getTransactionLogs_def world_with_card_def)
  have on_disk: "log_file ?w = Some ?logs"
    by (simp add: world_with_card_def)
  have m: "\<forall>l \<in> set (getTransactionLogs ?w). approved l \<longrightarrow> timestamp l < startOfMonth example_clock"
    unfolding logs by (simp add: log_entry_def example_clock_def)
  have d: "\<forall>l \<in> set (getTransactionLogs ?w). approved l \<longrightarrow> timestamp l < startOfDay example_clock"
    unfolding logs by (simp add: log_entry_def example_clock_def)
  note inst = logging_disabled_appends_nothing [OF h, of example_env ?w
      "request_of 20 ''store.com'' ''socks''" ?jobs example_env
      "request_of 20 ''store.com'' ''socks''" "logging DEFAULT_CONFIG" example_clock]
  have p1: "log_file (requestCards clawpay_without_logging ?w ?jobs) = Some ?logs"
    using inst on_disk by simp
  have p2: "getTodaySpending example_clock
              (getTransactionLogs (requestCards clawpay_without_logging ?w ?jobs)) = 0"
    using inst d by blast
  have p3: "getMonthSpending example_clock
              (getTransactionLogs (requestCards clawpay_without_logging ?w ?jobs)) = 0"
    using inst m by blast
  have p4: "policy_decision (clawpay_without_logging\<lparr>config :=
                (config clawpay_without_logging)\<lparr>logging := logging DEFAULT_CONFIG\<rparr>\<rparr>)
              example_env ?w (request_of 20 ''store.com'' ''socks'')
            = policy_decision clawpay_without_logging example_env
                (requestCards clawpay_without_logging ?w ?jobs)
                (request_of 20 ''store.com'' ''socks'')"
    using inst by simp
  have p0: "list_all (\<lambda>l. \<not> approved l \<or> timestamp l < startOfMonth example_clock)
              (getTransactionLogs ?w)"
    unfolding logs by (simp add: log_entry_def example_clock_def)
  show ?thesis using h p0 p1 p2 p3 p4 by (intro conjI)
qed

text \<open>
  Claim C4 as it is stated fails at an installation with logging disabled whose
  transaction log already holds an approved entry of 190 from today: a request of 20 is
  denied by the daily limit of 200, while with no prior spending it is auto-approved.
\<close>

theorem logging_disabled_appends_nothing_counterexample:
  "\<not> enabled (logging (config clawpay_without_logging)) \<and>
   action (policy_decision clawpay_without_logging example_env
             (world_with_card (Some [log_entry 190 True 1699930000000]))
             (request_of 20 ''store.com'' ''socks'')) = deny \<and>
   action (policy_decision clawpay_without_logging example_env
             (world_with_card None) (request_of 20 ''store.com'' ''socks'')) = auto_approve"
  by (simp add: decision_defs clawpay_without_logging_def log_entry_def facade_example_defs
      evaluate_defs example_defs)

text \<open>
  Claim C5, as the code has it. For every payment request, if no credential is stored in
  the vault then \<open>requestCard\<close> returns \<open>{approved: false, reason: "No card stored. Run
  `clawpay add-card` first."}\<close>, whatever the policy, the ledger and the request are; it
  calls neither the policy evaluator nor any other collaborator, and the files,
  the transaction log among them, are left as they were.
\<close>

theorem requestCard_without_credential:
  assumes "vault_file w = None"
  shows "requestCard cp e w r
           = (w, Inr (Refused ''No card stored. Run `clawpay add-card` first.'')) \<and>
         calls (fst (requestCard cp e w r)) = calls w \<and>
         log_file (fst (requestCard cp e w r)) = log_file w"
  using assms by (simp add: requestCard_def hasCard_def)

text \<open>The theorem at an installation with an empty vault and a request of 20.\<close>

theorem requestCard_without_credential_witness:
  "vault_file world_without_card = None \<and>
   requestCard default_clawpay example_env world_without_card
     (request_of 20 ''store.com'' ''socks'')
     = (world_without_card, Inr (Refused ''No card stored. Run `clawpay add-card` first.''))"
proof -
  have h: "vault_file world_without_card = None"
    by (simp add: world_without_card_def)
  from requestCard_without_credential [OF h, of default_clawpay example_env
      "request_of 20 ''store.com'' ''socks''"] h
  show ?thesis by simp
qed

text \<open>
  Claim C5 as it is stated fails on the reason: with an empty vault the reason returned
  is not the text \<open>no credential available\<close>.
\<close>

theorem requestCard_without_credential_counterexample:
  "vault_file world_without_card = None \<and>
   snd (requestCard default_clawpay example_env world_without_card
          (request_of 20 ''store.com'' ''socks''))
     \<noteq> Inr (Refused ''no credential available'')"
  by (simp add: requestCard_def hasCard_def world_without_card_def)

section \<open>The approval router\<close>

text \<open>
  Claim C7. For every payment request and policy result, if the configured approval
  method is none of the known channel values (terminal, webhook, slack, telegram,
  whatsapp, callback), \<open>requestApproval\<close> returns false, a denial, and does not throw.
\<close>

theorem requestApproval_unknown_method_denies:
  assumes "approval_method cfg \<notin>
             {''terminal'', ''webhook'', ''slack'', ''telegram'', ''whatsapp'', ''callback''}"
  shows "requestApproval ch pay pr cfg = Inr False"
  using assms by (simp add: requestApproval_def Let_def)

text \<open>The theorem at the misspelt method \<open>terminl\<close>.\<close>

theorem requestApproval_unknown_method_denies_witness:
  "approval_method ((approval DEFAULT_CONFIG)\<lparr>approval_method := ''terminl''\<rparr>) \<notin>
     {''terminal'', ''webhook'', ''slack'', ''telegram'', ''whatsapp'', ''callback''} \<and>
   requestApproval example_channels (request_of 50 ''store.com'' ''socks'')
     \<lparr>action = require_approval, reason = []\<rparr>
     ((approval DEFAULT_CONFIG)\<lparr>approval_method := ''terminl''\<rparr>) = Inr False"
proof -
  have h: "approval_method ((approval DEFAULT_CONFIG)\<lparr>approval_method := ''terminl''\<rparr>) \<notin>
             {''terminal'', ''webhook'', ''slack'', ''telegram'', ''whatsapp'', ''callback''}"
    by simp
  from requestApproval_unknown_method_denies [OF h, of example_channels] h
  show ?thesis by blast
qed

text \<open>
  Claim C10. For every payment request that reaches the human-approval path with the
  approval timeout configured as 0 or absent, the wait is given the default of 300
  seconds: the timeout computed is 300000 milliseconds; the router behaves as with a
  configured timeout of 300 and hands 300000 to the terminal, webhook, slack and telegram
  handlers; and \<open>requestCard\<close> calls an installed approval callback with 300000.
\<close>

theorem approval_timeout_defaults_to_300s:
  assumes "timeout acfg = None \<or> timeout acfg = Some 0"
  shows "timeout_ms acfg = 300000 \<and>
         requestApproval ch pay pr acfg = requestApproval ch pay pr (acfg\<lparr>timeout := Some 300\<rparr>) \<and>
         (approval_method acfg = ''terminal'' \<longrightarrow>
            requestApproval ch pay pr acfg = terminal_channel ch pay pr 300000) \<and>
         (approval_method acfg = ''webhook'' \<longrightarrow> webhookUrl acfg = Some url \<longrightarrow> url \<noteq> [] \<longrightarrow>
            requestApproval ch pay pr acfg = webhook_channel ch pay pr url 300000) \<and>
         (approval_method acfg = ''slack'' \<longrightarrow> slackWebhookUrl acfg = Some url \<longrightarrow> url \<noteq> [] \<longrightarrow>
            requestApproval ch pay pr acfg = webhook_channel ch pay pr url 300000) \<and>
         (approval_method acfg = ''telegram'' \<longrightarrow> telegramBotToken acfg = Some tok \<longrightarrow>
            tok \<noteq> [] \<longrightarrow> telegramChatId acfg = Some chat \<longrightarrow> chat \<noteq> [] \<longrightarrow>
            requestApproval ch pay pr acfg = telegram_channel ch pay pr tok chat 300000) \<and>
         (approval (config cp) = acfg \<longrightarrow> onApproval cp = Some cb \<longrightarrow> hasCard w \<longrightarrow>
            action (policy_decision cp e w r) = require_approval \<longrightarrow>
            Ask_callback 300000 \<in> set (calls (fst (requestCard cp e w r))) \<and>
            (cb r (policy_decision cp e w r) 300000 = Inr False \<longrightarrow>
               snd (requestCard cp e w r) = Inr (Refused ''Payment denied by user.'')))"
proof -
  have ms: "timeout_ms acfg = 300000"
    using assms by (auto simp: timeout_ms_def truthy_number_def)
  have ms': "timeout_ms (acfg\<lparr>timeout := Some 300\<rparr>) = 300000"
    by (simp add: timeout_ms_def truthy_number_def)
  have router: "requestApproval ch pay pr acfg
                  = requestApproval ch pay pr (acfg\<lparr>timeout := Some 300\<rparr>)"
    by (simp add: requestApproval_def ms ms')
  have chan: "approval_method acfg = ''terminal'' \<longrightarrow>
                requestApproval ch pay pr acfg = terminal_channel ch pay pr 300000"
    "approval_method acfg = ''webhook'' \<longrightarrow> webhookUrl acfg = Some url \<longrightarrow> url \<noteq> [] \<longrightarrow>
       requestApproval ch pay pr acfg = webhook_channel ch pay pr url 300000"
    "approval_method acfg = ''slack'' \<longrightarrow> slackWebhookUrl acfg = Some url \<longrightarrow> url \<noteq> [] \<longrightarrow>
       requestApproval ch pay pr acfg = webhook_channel ch pay pr url 300000"
    "approval_method acfg = ''telegram'' \<longrightarrow> telegramBotToken acfg = Some tok \<longrightarrow>
       tok \<noteq> [] \<longrightarrow> telegramChatId acfg = Some chat \<longrightarrow> chat \<noteq> [] \<longrightarrow>
       requestApproval ch pay pr acfg = telegram_channel ch pay pr tok chat 300000"
    by (simp_all add: requestApproval_def ms)
  have card: "Ask_callback 300000 \<in> set (calls (fst (requestCard cp e w r))) \<and>
              (cb r (policy_decision cp e w r) 300000 = Inr False \<longrightarrow>
                 snd (requestCard cp e w r) = Inr (Refused ''Payment denied by user.''))"
    if "approval (config cp) = acfg" "onApproval cp = Some cb" "hasCard w"
      "action (policy_decision cp e w r) = require_approval"
    using that ms
    by (auto simp add: requestCard_def Let_def called_def logTransaction_def
        split: sum.splits)
  show ?thesis using ms router chan card by blast
qed

text \<open>
  The theorem at the default configuration with the timeout set to 0 (terminal method),
  and at an installation with no timeout and a callback that denies when it is given
  300000: the callback is asked with 300000 and the request of 50 is refused.
\<close>

theorem approval_timeout_defaults_to_300s_witness:
  "(timeout ((approval DEFAULT_CONFIG)\<lparr>timeout := Some 0\<rparr>) = None \<or>
    timeout ((approval DEFAULT_CONFIG)\<lparr>timeout := Some 0\<rparr>) = Some 0) \<and>
   timeout_ms ((approval DEFAULT_CONFIG)\<lparr>timeout := Some 0\<rparr>) = 300000 \<and>
   requestApproval example_channels (request_of 50 ''store.com'' ''socks'')
     \<lparr>action = require_approval, reason = []\<rparr> ((approval DEFAULT_CONFIG)\<lparr>timeout := Some 0\<rparr>)
     = terminal_channel example_channels (request_of 50 ''store.com'' ''socks'')
         \<lparr>action = require_approval, reason = []\<rparr> 300000 \<and>
   (timeout (approval (config clawpay_with_callback)) = None \<or>
    timeout (approval (config clawpay_with_callback)) = Some 0) \<and>
   hasCard (world_with_card None) \<and>
   action (policy_decision clawpay_with_callback example_env (world_with_card None)
             (request_of 50 ''store.com'' ''socks'')) = require_approval \<and>
   Ask_callback 300000 \<in> set (calls (fst (requestCard clawpay_with_callback example_env
     (world_with_card None) (request_of 50 ''store.com'' ''socks'')))) \<and>
   snd (requestCard clawpay_with_callback example_env (world_with_card None)
          (request_of 50 ''store.com'' ''socks'')) = Inr (Refused ''Payment denied by user.'')"
proof -
  let ?zero = "(approval DEFAULT_CONFIG)\<lparr>timeout := Some 0\<rparr>"
  let ?r = "request_of 50 ''store.com'' ''socks''"
  let ?cb = "\<lambda>(p::PaymentRequest) (r::PolicyResult) (t::real).
               if t = 300000 then Inr False else Inl (Error ''other timeout'')"
  have h0: "timeout ?zero = None \<or> timeout ?zero = Some 0"
    by simp
  have m0: "approval_method ?zero = ''terminal''"
    by (simp add: DEFAULT_CONFIG_def)
  have h1: "timeout (approval (config clawpay_with_callback)) = None \<or>
            timeout (approval (config clawpay_with_callback)) = Some 0"
    by (simp add: clawpay_with_callback_def)
  have cb: "onApproval clawpay_with_callback = Some ?cb"
    by (simp add: clawpay_with_callback_def)
  have card: "hasCard (world_with_card None)"
    by (simp add: hasCard_def world_with_card_def)
  have act: "action (policy_decision clawpay_with_callback example_env (world_with_card None) ?r)
               = require_approval"
    by (simp add: decision_defs clawpay_with_callback_def facade_example_defs evaluate_defs
        example_defs)
  note z = approval_timeout_defaults_to_300s [OF h0, where ch = example_channels and pay = ?r
      and pr = "\<lparr>action = require_approval, reason = []\<rparr>"]
  note k = approval_timeout_defaults_to_300s [OF h1, where cp = clawpay_with_callback
      and cb = ?cb and w = "world_with_card None" and e = example_env and r = ?r]
  have z1: "timeout_ms ?zero = 300000"
    using z by blast
  have z2: "requestApproval example_channels ?r \<lparr>action = require_approval, reason = []\<rparr> ?zero
              = terminal_channel example_channels ?r \<lparr>action = require_approval, reason = []\<rparr> 300000"
    using z m0 by blast
  have k1: "Ask_callback 300000 \<in> set (calls (fst (requestCard clawpay_with_callback example_env
              (world_with_card None) ?r))) \<and>
            (?cb ?r (policy_decision clawpay_with_callback example_env (world_with_card None) ?r)
               300000 = Inr False \<longrightarrow>
             snd (requestCard clawpay_with_callback example_env (world_with_card None) ?r)
               = Inr (Refused ''Payment denied by user.''))"
    using k cb card act by blast
  then have k2: "snd (requestCard clawpay_with_callback example_env (world_with_card None) ?r)
                   = Inr (Refused ''Payment denied by user.'')"
    by simp
  show ?thesis using h0 h1 card act z1 z2 k1 k2 by blast
qed

section \<open>Replies and the race on the terminal\<close>

text \<open>
  Claim C6, as the code has it. For replies of ASCII characters: a reply is trimmed and
  lower-cased before it is read, so two replies that differ only in the case of their
  letters get the same decision, on the WhatsApp channel and on the terminal. On the
  WhatsApp channel a non-empty reply that normalizes to one of yes, approve, y, approved
  is approved; one that normalizes to one of no, deny, n, denied, reject is denied; any
  other non-empty reply is denied and answered with a message that quotes the reply and
  says it was not recognized. On the terminal the only affirmative token is yes; every
  other reply is denied with the same line, \<open>Payment denied.\<close>, which does not say why.
\<close>

theorem reply_normalization:
  assumes "ascii reply"
  shows
  "(reply \<noteq> [] \<longrightarrow>
      (normalized reply \<in> affirmative_tokens \<longrightarrow>
         whatsappApproval f pay pr (Some reply)
           = (True, [whatsapp_prompt f pay pr, sym_check @ '' Payment approved.''])) \<and>
      (normalized reply \<in> negative_tokens \<longrightarrow>
         whatsappApproval f pay pr (Some reply)
           = (False, [whatsapp_prompt f pay pr, sym_cross @ '' Payment denied.''])) \<and>
      (normalized reply \<notin> affirmative_tokens \<union> negative_tokens \<longrightarrow>
         whatsappApproval f pay pr (Some reply)
           = (False, [whatsapp_prompt f pay pr,
                      ''Unrecognized reply '' @ quoted reply @ ''. Payment denied for safety.'']))) \<and>
   (ascii reply' \<longrightarrow> toLowerCase reply' = toLowerCase reply \<longrightarrow>
      fst (whatsappApproval f pay pr (Some reply')) = fst (whatsappApproval f pay pr (Some reply)) \<and>
      promise (terminal_run [Line_typed reply']) = promise (terminal_run [Line_typed reply])) \<and>
   promise (terminal_run [Line_typed reply]) = Some (normalized reply = ''yes'') \<and>
   (normalized reply \<noteq> ''yes'' \<longrightarrow>
      console (terminal_run [Line_typed reply]) = [sym_cross @ '' Payment denied.''])"
proof -
  have wa: "whatsappApproval f pay pr (Some x)
              = (if normalized x \<in> affirmative_tokens
                 then (True, [whatsapp_prompt f pay pr, sym_check @ '' Payment approved.''])
                 else if normalized x \<in> negative_tokens
                 then (False, [whatsapp_prompt f pay pr, sym_cross @ '' Payment denied.''])
                 else (False, [whatsapp_prompt f pay pr,
                        ''Unrecognized reply '' @ quoted x @ ''. Payment denied for safety.'']))"
    if "x \<noteq> []" for x
    using that
    by (simp add: whatsappApproval_def Let_def normalized_def affirmative_tokens_def
        negative_tokens_def quoted_def)
  have disjoint: "affirmative_tokens \<inter> negative_tokens = {}"
    by (simp add: affirmative_tokens_def negative_tokens_def)
  have tty: "terminal_run [Line_typed x]
                = \<lparr>promise = Some (normalized x = ''yes''), timer_armed = False, rl_open = False,
                   console = [if normalized x = ''yes'' then sym_check @ '' Payment approved.''
                              else sym_cross @ '' Payment denied.'']\<rparr>" for x
    by (simp add: terminal_run_first deliver_first signal_decision_def)
  have ci: "fst (whatsappApproval f pay pr (Some reply'))
              = fst (whatsappApproval f pay pr (Some reply)) \<and>
            promise (terminal_run [Line_typed reply']) = promise (terminal_run [Line_typed reply])"
    if low: "toLowerCase reply' = toLowerCase reply"
  proof -
    have n: "normalized reply' = normalized reply"
      by (rule normalized_only_lower [OF low])
    have e: "(reply' = []) = (reply = [])"
      using low by (metis toLowerCase_empty)
    show ?thesis
    proof (cases "reply = []")
      case True
      with e show ?thesis by simp
    next
      case False
      with e have "reply' \<noteq> []" by simp
      then show ?thesis using False by (simp add: wa tty n)
    qed
  qed
  show ?thesis
  proof (intro conjI impI)
    assume "toLowerCase reply' = toLowerCase reply"
    then show "fst (whatsappApproval f pay pr (Some reply'))
                 = fst (whatsappApproval f pay pr (Some reply))"
      using ci by simp
  next
    assume "toLowerCase reply' = toLowerCase reply"
    then show "promise (terminal_run [Line_typed reply'])
                 = promise (terminal_run [Line_typed reply])"
      using ci by simp
  next
    assume "reply \<noteq> []" "normalized reply \<in> negative_tokens"
    then show "whatsappApproval f pay pr (Some reply)
                 = (False, [whatsapp_prompt f pay pr, sym_cross @ '' Payment denied.''])"
      using disjoint by (auto simp add: wa)
  qed (simp_all add: wa tty)
qed

text \<open>
  The theorem at the replies \<open>Yes\<close> (with a trailing space) and \<open>maybe\<close>: the first is
  approved on both channels, the second is denied on both, and WhatsApp names it.
\<close>

theorem reply_normalization_witness:
  "ascii ''Yes '' \<and> ascii ''maybe'' \<and>
   ''Yes '' \<noteq> [] \<and> normalized ''Yes '' \<in> affirmative_tokens \<and>
   fst (whatsappApproval example_format (request_of 50 ''store.com'' ''socks'')
          \<lparr>action = require_approval, reason = []\<rparr> (Some ''Yes '')) = True \<and>
   promise (terminal_run [Line_typed ''Yes '']) = Some True \<and>
   ''maybe'' \<noteq> [] \<and> normalized ''maybe'' \<notin> affirmative_tokens \<union> negative_tokens \<and>
   whatsappApproval example_format (request_of 50 ''store.com'' ''socks'')
     \<lparr>action = require_approval, reason = []\<rparr> (Some ''maybe'')
     = (False, [whatsapp_prompt example_format (request_of 50 ''store.com'' ''socks'')
                  \<lparr>action = require_approval, reason = []\<rparr>,
                ''Unrecognized reply '' @ quoted ''maybe'' @ ''. Payment denied for safety.'']) \<and>
   console (terminal_run [Line_typed ''maybe'']) = [sym_cross @ '' Payment denied.'']"
proof -
  have yes: "normalized ''Yes '' = ''yes''"
    by (simp add: normalized_def trim_def is_space_def toLowerCase_def lower_char_def)
  have maybe: "normalized ''maybe'' = ''maybe''"
    by (simp add: normalized_def trim_def is_space_def toLowerCase_def lower_char_def)
  have a: "normalized ''Yes '' \<in> affirmative_tokens"
    by (simp add: yes affirmative_tokens_def)
  have b: "normalized ''maybe'' \<notin> affirmative_tokens \<union> negative_tokens"
    by (simp add: maybe affirmative_tokens_def negative_tokens_def)
  have c: "normalized ''maybe'' \<noteq> ''yes''"
    by (simp add: maybe)
  have ay: "ascii ''Yes ''" and am: "ascii ''maybe''"
    by (simp_all add: ascii_def)
  note y = reply_normalization [OF ay, of example_format
      "request_of 50 ''store.com'' ''socks''" "\<lparr>action = require_approval, reason = []\<rparr>"
      "''Yes ''"]
  note m = reply_normalization [OF am, of example_format
      "request_of 50 ''store.com'' ''socks''" "\<lparr>action = require_approval, reason = []\<rparr>"
      "''maybe''"]
  have y1: "fst (whatsappApproval example_format (request_of 50 ''store.com'' ''socks'')
             \<lparr>action = require_approval, reason = []\<rparr> (Some ''Yes '')) = True"
    using y a by simp
  have y2: "promise (terminal_run [Line_typed ''Yes '']) = Some True"
    using y yes by simp
  have m1: "whatsappApproval example_format (request_of 50 ''store.com'' ''socks'')
     \<lparr>action = require_approval, reason = []\<rparr> (Some ''maybe'')
     = (False, [whatsapp_prompt example_format (request_of 50 ''store.com'' ''socks'')
                  \<lparr>action = require_approval, reason = []\<rparr>,
                ''Unrecognized reply '' @ quoted ''maybe'' @ ''. Payment denied for safety.''])"
    using m b by blast
  have m2: "console (terminal_run [Line_typed ''maybe'']) = [sym_cross @ '' Payment denied.'']"
    using m c by blast
  show ?thesis using ay am a b y1 y2 m1 m2 by simp
qed

text \<open>
  Claim C6 as it is stated fails on the terminal: the affirmative reply \<open>y\<close>, approved
  on WhatsApp, is denied there, and the unrecognized reply \<open>maybe\<close> prints exactly what
  the reply \<open>no\<close> prints, so the human is not told why.
\<close>

theorem reply_normalization_counterexample:
  "fst (whatsappApproval example_format (request_of 50 ''store.com'' ''socks'')
          \<lparr>action = require_approval, reason = []\<rparr> (Some ''y'')) = True \<and>
   promise (terminal_run [Line_typed ''y'']) = Some False \<and>
   promise (terminal_run [Line_typed ''maybe'']) = Some False \<and>
   console (terminal_run [Line_typed ''maybe'']) = console (terminal_run [Line_typed ''no''])"
  by (simp add: whatsappApproval_def terminal_run_def deliver_def terminal_pending_def
      on_answer_def resolve_def Let_def trim_def is_space_def toLowerCase_def lower_char_def)

text \<open>
  Claim C9. On the terminal, whatever signals arrive and in whatever order (the typed
  line, the timeout, either of them again), the promise is settled by the first one
  alone: the decision returned is the first signal's, and every later signal leaves the
  whole state as it is. The two callbacks themselves cannot overturn a decision either:
  run on a state whose promise is settled, each leaves the promise as it is.
\<close>

theorem terminal_resolves_once:
  "promise (terminal_run (sig # sigs)) = Some (signal_decision sig) \<and>
   terminal_run (sig # sigs) = terminal_run [sig] \<and>
   (promise s \<noteq> None \<longrightarrow>
      promise (on_timeout s) = promise s \<and>
      promise (on_answer answer s) = promise s \<and>
      promise (deliver late s) = promise s)"
proof -
  have first: "terminal_run (sig # sigs) = deliver sig terminal_pending" for sigs
    by (rule terminal_run_first)
  have settled: "promise (on_timeout s) = promise s \<and> promise (on_answer answer s) = promise s"
    if "promise s \<noteq> None"
    using that by (simp add: on_timeout_def on_answer_def Let_def resolve_settled)
  have late: "promise (deliver late s) = promise s" if "promise s \<noteq> None"
    using that
    by (cases late) (simp_all add: deliver_def on_timeout_def on_answer_def Let_def resolve_settled)
  show ?thesis using settled late by (simp add: first deliver_first)
qed

text \<open>
  The theorem at the two orders of a typed \<open>yes\<close> and the timeout: typed first, the
  decision is approval and the timeout changes nothing; timeout first, it is denial and
  the line changes nothing.
\<close>

theorem terminal_resolves_once_witness:
  "promise (terminal_run [Line_typed ''yes'', Timer_fires]) = Some True \<and>
   promise (terminal_run [Timer_fires, Line_typed ''yes'']) = Some False \<and>
   promise (terminal_run [Line_typed ''yes'']) \<noteq> None \<and>
   promise (on_timeout (terminal_run [Line_typed ''yes''])) = Some True"
proof -
  have yes: "signal_decision (Line_typed ''yes'') = True"
    by (simp add: signal_decision_def normalized_def trim_def is_space_def toLowerCase_def
        lower_char_def)
  have no: "signal_decision Timer_fires = False"
    by (simp add: signal_decision_def)
  note a = terminal_resolves_once [of "Line_typed ''yes''" "[Timer_fires]"
      "terminal_run [Line_typed ''yes'']" "[]" Timer_fires]
  note b = terminal_resolves_once [of Timer_fires "[Line_typed ''yes'']"
      "terminal_run [Line_typed ''yes'']" "[]" Timer_fires]
  note c = terminal_resolves_once [of "Line_typed ''yes''" "[]"
      "terminal_run [Line_typed ''yes'']" "[]" Timer_fires]
  have p1: "promise (terminal_run [Line_typed ''yes'', Timer_fires]) = Some True"
    using a [THEN conjunct1] yes by simp
  have p2: "promise (terminal_run [Timer_fires, Line_typed ''yes'']) = Some False"
    using b [THEN conjunct1] no by simp
  have p3: "promise (terminal_run [Line_typed ''yes'']) = Some True"
    using c [THEN conjunct1] yes by simp
  have p4: "promise (on_timeout (terminal_run [Line_typed ''yes''])) = Some True"
    using c [THEN conjunct2, THEN conjunct2] p3 by simp
  show ?thesis using p1 p2 p3 p4 by simp
qed

end
